theory Spec2Isabelle
  imports Main "HOL-Library.Product_Lexorder"
begin

text \<open>
  A model of the two scripts of the repository, \<^verbatim>\<open>scripts/update_competitor_sheets.py\<close>
  (the update job: source selection, extraction into the staging tabs, append of a new
  dated column to each ledger tab, update of the metadata) and
  \<^verbatim>\<open>scripts/freeze_master_values.py\<close> (the freeze job), and the properties proved of them.

  The scripts talk to the Google Drive and Sheets services. A remote call is a request
  handed to a service function, which is a parameter of the model; what a script does is
  its result, the state it leaves the remote side in, and the list of its events (remote
  calls, printed lines, sleeps) in program order. Exceptions are results. Loading the
  configuration and the credentials is outside the model: the functions take the loaded
  configuration and the values read from the environment as arguments.
\<close>

section \<open>Column codec\<close>

text \<open>
  Both scripts carry the same two functions (\<^verbatim>\<open>update_competitor_sheets.py\<close> lines 98-113,
  \<^verbatim>\<open>freeze_master_values.py\<close> lines 41-55). Python integers are unbounded: \<open>int\<close>.
  A Python \<^verbatim>\<open>str\<close> is modelled as a \<open>string\<close> of ASCII characters; \<^verbatim>\<open>str.upper\<close> is
  modelled on the ASCII letters and leaves every other character as it is.
\<close>

definition upper_char :: "char \<Rightarrow> char" where
  "upper_char ch =
     (if 97 \<le> (of_char ch :: nat) \<and> (of_char ch :: nat) \<le> 122
      then char_of ((of_char ch :: nat) - 32) else ch)"

definition upper :: "string \<Rightarrow> string" where
  "upper s = map upper_char s"

text \<open>\<^verbatim>\<open>"A" <= ch <= "Z"\<close>\<close>

definition is_A_to_Z :: "char \<Rightarrow> bool" where
  "is_A_to_Z ch \<longleftrightarrow> 65 \<le> (of_char ch :: nat) \<and> (of_char ch :: nat) \<le> 90"

text \<open>
  \<^verbatim>\<open>
  def a1_to_col(a1):
      result = 0
      for ch in a1.upper():
          if not ("A" <= ch <= "Z"):
              break
          result = result * 26 + (ord(ch) - 64)
      return result
  \<close>
\<close>

fun a1_to_col_loop :: "string \<Rightarrow> int \<Rightarrow> int" where
  "a1_to_col_loop [] result = result"
| "a1_to_col_loop (ch # rest) result =
     (if \<not> is_A_to_Z ch then result
      else a1_to_col_loop rest (result * 26 + (of_char ch - 64)))"

definition a1_to_col :: "string \<Rightarrow> int" where
  "a1_to_col a1 = a1_to_col_loop (upper a1) 0"

text \<open>
  \<^verbatim>\<open>
  def col_to_a1(index):
      letters = []
      while index > 0:
          index, remainder = divmod(index - 1, 26)
          letters.append(chr(65 + remainder))
      return "".join(reversed(letters))
  \<close>
\<close>

function col_to_a1_loop :: "int \<Rightarrow> string \<Rightarrow> string" where
  "col_to_a1_loop index letters =
     (if index > 0
      then col_to_a1_loop ((index - 1) div 26) (letters @ [char_of (65 + (index - 1) mod 26)])
      else letters)"
  by pat_completeness auto
termination
  by (relation "measure (\<lambda>(index, letters). nat index)") auto

definition col_to_a1 :: "int \<Rightarrow> string" where
  "col_to_a1 index = rev (col_to_a1_loop index [])"

section \<open>Strings and cell values\<close>

text \<open>
  \<^verbatim>\<open>name.startswith(prefix)\<close>, \<^verbatim>\<open>str.strip()\<close> (on the ASCII white space) and
  \<^verbatim>\<open>str(n)\<close> for an integer, as the f-strings of the scripts use it.
\<close>

definition startswith :: "string \<Rightarrow> string \<Rightarrow> bool" where
  "startswith s p \<longleftrightarrow> take (length p) s = p"

definition is_space :: "char \<Rightarrow> bool" where
  "is_space ch \<longleftrightarrow>
     (let n = (of_char ch :: nat) in (9 \<le> n \<and> n \<le> 13) \<or> (28 \<le> n \<and> n \<le> 32))"

definition strip :: "string \<Rightarrow> string" where
  "strip s = rev (dropWhile is_space (rev (dropWhile is_space s)))"

fun str_nat :: "nat \<Rightarrow> string" where
  "str_nat n =
     (if n < 10 then [char_of (48 + n)] else str_nat (n div 10) @ [char_of (48 + n mod 10)])"

declare str_nat.simps [simp del]

definition str_int :: "int \<Rightarrow> string" where
  "str_int i = (if i < 0 then CHR ''-'' # str_nat (nat (- i)) else str_nat (nat i))"

text \<open>
  A cell of a values response is a JSON scalar. Floating-point cells are outside this
  model; the scripts only ever apply \<^verbatim>\<open>str\<close> to a cell or pass it on unchanged.
\<close>

datatype cell = CellStr string | CellInt int | CellBool bool

fun py_str :: "cell \<Rightarrow> string" where
  "py_str (CellStr s) = s"
| "py_str (CellInt i) = str_int i"
| "py_str (CellBool b) = (if b then ''True'' else ''False'')"

section \<open>The remote grid client\<close>

text \<open>
  Every remote call of the scripts goes through \<^verbatim>\<open>exec_request\<close>. A request is kept as
  data. A range \<^verbatim>\<open>f"'{sheet}'!{a1}"\<close> is kept as the sheet name and the A1 part, and the
  A1 part as the pieces the f-string is built from; \<open>range_name\<close> gives the string the
  script sends.
\<close>

datatype a1 =
    Cell string int                 \<comment> \<open>\<^verbatim>\<open>f"{col}{row}"\<close>\<close>
  | Span string int string int      \<comment> \<open>\<^verbatim>\<open>f"{col}{row}:{col2}{row2}"\<close>\<close>
  | A1 string                       \<comment> \<open>a range taken from the configuration as it is\<close>

datatype range = Range string a1

fun a1_str :: "a1 \<Rightarrow> string" where
  "a1_str (Cell col row) = col @ str_int row"
| "a1_str (Span col row col2 row2) = col @ str_int row @ '':'' @ col2 @ str_int row2"
| "a1_str (A1 s) = s"

fun range_name :: "range \<Rightarrow> string" where
  "range_name (Range sheet a) = [CHR 0x27] @ sheet @ [CHR 0x27] @ ''!'' @ a1_str a"

fun range_sheet :: "range \<Rightarrow> string" where
  "range_sheet (Range sheet a) = sheet"

datatype value_render_option = FORMULA | UNFORMATTED_VALUE | FORMATTED_VALUE

datatype value_input_option = RAW | USER_ENTERED

datatype request =
    SpreadsheetsGet string
      \<comment> \<open>\<^verbatim>\<open>spreadsheets().get(spreadsheetId, fields="sheets.properties(...)")\<close>\<close>
  | ValuesGet string range "value_render_option option"
      \<comment> \<open>\<^verbatim>\<open>values().get(spreadsheetId, range[, valueRenderOption])\<close>\<close>
  | ValuesUpdate string range value_input_option "cell list list"
      \<comment> \<open>\<^verbatim>\<open>values().update(spreadsheetId, range, valueInputOption, body={"values": ...})\<close>\<close>
  | ValuesClear string range
      \<comment> \<open>\<^verbatim>\<open>values().clear(spreadsheetId, range, body={})\<close>\<close>
  | UpdateColumnCount string int int
      \<comment> \<open>\<^verbatim>\<open>batchUpdate\<close> of \<^verbatim>\<open>updateSheetProperties\<close>: spreadsheetId, sheetId, columnCount\<close>
  | CopyPasteValues string int int int int
      \<comment> \<open>\<^verbatim>\<open>batchUpdate\<close> of \<^verbatim>\<open>copyPaste\<close> with \<^verbatim>\<open>PASTE_VALUES\<close> of a column range onto itself:
          spreadsheetId, sheetId, column index (0-based), startRowIndex, endRowIndex\<close>
  | DriveListSpreadsheets string string
      \<comment> \<open>the recursive listing of the spreadsheets below a folder: driveId, folderId\<close>

record sheet_json =
  p_title :: "string option"
  p_sheetId :: "int option"
  p_rowCount :: "int option"
  p_columnCount :: "int option"

record drive_file =
  f_id :: string
  f_name :: string
  modifiedTime :: "string option"
  createdTime :: "string option"

text \<open>
  A response is a JSON object; a key that is absent reads as the default the scripts give
  to \<^verbatim>\<open>response.get\<close>, the empty list.
\<close>

record response =
  resp_values :: "cell list list"
  resp_sheets :: "sheet_json list"
  resp_files :: "drive_file list"

datatype remote_error = HttpError string | TransportError string

text \<open>
  The exceptions of a run: the ones a remote call raises, and the ones the scripts and
  the Python library raise themselves. \<^verbatim>\<open>TabMissingError\<close> is the class of
  \<^verbatim>\<open>update_competitor_sheets.py\<close>.
\<close>

datatype exn =
    Remote remote_error
  | TabMissingError string
  | RuntimeError string
  | TypeError string
  | ValueError string
  | KeyError string
  | IndexError string

fun remote_error_str :: "remote_error \<Rightarrow> string" where
  "remote_error_str (HttpError m) = m"
| "remote_error_str (TransportError m) = m"

fun exn_str :: "exn \<Rightarrow> string" where
  "exn_str (Remote e) = remote_error_str e"
| "exn_str (TabMissingError m) = m"
| "exn_str (RuntimeError m) = m"
| "exn_str (TypeError m) = m"
| "exn_str (ValueError m) = m"
| "exn_str (KeyError m) = m"
| "exn_str (IndexError m) = m"

text \<open>
  What a run does to the outside, in program order: a remote call and whether it failed, a
  printed line, a \<^verbatim>\<open>time.sleep\<close>.
\<close>

datatype event = Call request "remote_error option" | Print string | Sleep nat

text \<open>
  The remote service is a parameter: any function from a request and the state \<open>'w\<close> of
  the remote side to a response or an error, and the next state.
\<close>

type_synonym 'w service = "request \<Rightarrow> 'w \<Rightarrow> (remote_error + response) \<times> 'w"

text \<open>
  A piece of a script: from the remote state to its result (a value, or the exception it
  raises), the remote state it leaves, and the events it produced.
\<close>

type_synonym ('w, 'a) prog = "'w \<Rightarrow> (exn + 'a) \<times> 'w \<times> event list"

definition ret :: "'a \<Rightarrow> ('w, 'a) prog" where
  "ret a w = (Inr a, w, [])"

definition raise :: "exn \<Rightarrow> ('w, 'a) prog" where
  "raise e w = (Inl e, w, [])"

definition and_then :: "('w, 'a) prog \<Rightarrow> ('a \<Rightarrow> ('w, 'b) prog) \<Rightarrow> ('w, 'b) prog" where
  "and_then m f w =
     (case m w of
        (Inl e, w1, ev1) \<Rightarrow> (Inl e, w1, ev1)
      | (Inr a, w1, ev1) \<Rightarrow> (case f a w1 of (r, w2, ev2) \<Rightarrow> (r, w2, ev1 @ ev2)))"

definition py_print :: "string \<Rightarrow> ('w, unit) prog" where
  "py_print line w = (Inr (), w, [Print line])"

text \<open>\<^verbatim>\<open>def exec_request(request): return request.execute(num_retries=HTTP_RETRIES)\<close>\<close>

definition exec_request :: "'w service \<Rightarrow> request \<Rightarrow> ('w, response) prog" where
  "exec_request svc req w =
     (case svc req w of
        (Inl e, w1) \<Rightarrow> (Inl (Remote e), w1, [Call req (Some e)])
      | (Inr resp, w1) \<Rightarrow> (Inr resp, w1, [Call req None]))"

section \<open>Source selector\<close>

text \<open>
  A Python \<^verbatim>\<open>datetime\<close>: the civil fields and the offset from UTC in microseconds,
  \<open>None\<close> for a naive value. \<^verbatim>\<open>datetime.min\<close> is naive.
\<close>

record datetime =
  dt_year :: int
  dt_month :: int
  dt_day :: int
  dt_hour :: int
  dt_minute :: int
  dt_second :: int
  dt_microsecond :: int
  dt_utcoffset :: "int option"

definition datetime_min :: datetime where
  "datetime_min = \<lparr>dt_year = 1, dt_month = 1, dt_day = 1, dt_hour = 0, dt_minute = 0,
     dt_second = 0, dt_microsecond = 0, dt_utcoffset = None\<rparr>"

definition is_leap :: "int \<Rightarrow> bool" where
  "is_leap y \<longleftrightarrow> y mod 4 = 0 \<and> (y mod 100 \<noteq> 0 \<or> y mod 400 = 0)"

definition days_in_month :: "int \<Rightarrow> int \<Rightarrow> int" where
  "days_in_month y m =
     (if m = 2 then (if is_leap y then 29 else 28)
      else if m = 4 \<or> m = 6 \<or> m = 9 \<or> m = 11 then 30 else 31)"

text \<open>
  \<^verbatim>\<open>datetime(year, month, day, hour, minute, second)\<close>: a naive value, or \<^verbatim>\<open>ValueError\<close>
  when a field is out of range.
\<close>

definition datetime_new :: "int \<Rightarrow> int \<Rightarrow> int \<Rightarrow> int \<Rightarrow> int \<Rightarrow> int \<Rightarrow> exn + datetime" where
  "datetime_new y m d hh mi ss =
     (if 1 \<le> y \<and> y \<le> 9999 \<and> 1 \<le> m \<and> m \<le> 12 \<and> 1 \<le> d \<and> d \<le> days_in_month y m \<and>
         0 \<le> hh \<and> hh \<le> 23 \<and> 0 \<le> mi \<and> mi \<le> 59 \<and> 0 \<le> ss \<and> ss \<le> 59
      then Inr \<lparr>dt_year = y, dt_month = m, dt_day = d, dt_hour = hh, dt_minute = mi,
                dt_second = ss, dt_microsecond = 0, dt_utcoffset = None\<rparr>
      else Inl (ValueError ''field out of range''))"

text \<open>
  The order of two values of the same kind is the order of their instants (for naive
  values, of their civil fields): microseconds from 0001-01-01, less the offset.
\<close>

definition days_before_year :: "int \<Rightarrow> int" where
  "days_before_year y = (y - 1) * 365 + (y - 1) div 4 - (y - 1) div 100 + (y - 1) div 400"

definition days_before_month :: "int \<Rightarrow> int \<Rightarrow> int" where
  "days_before_month y m = sum_list (map (days_in_month y) [1..m - 1])"

definition instant :: "datetime \<Rightarrow> int" where
  "instant t =
     ((((days_before_year (dt_year t) + days_before_month (dt_year t) (dt_month t) + dt_day t) * 24
        + dt_hour t) * 60 + dt_minute t) * 60 + dt_second t) * 1000000 + dt_microsecond t
     - (case dt_utcoffset t of None \<Rightarrow> 0 | Some off \<Rightarrow> off)"

definition is_naive :: "datetime \<Rightarrow> bool" where
  "is_naive t \<longleftrightarrow> dt_utcoffset t = None"

text \<open>
  \<^verbatim>\<open>a == b\<close> and \<^verbatim>\<open>a < b\<close> on datetimes: a naive and an aware value are never equal, and
  ordering them raises \<^verbatim>\<open>TypeError\<close>.
\<close>

definition dt_eq :: "datetime \<Rightarrow> datetime \<Rightarrow> bool" where
  "dt_eq a b \<longleftrightarrow> is_naive a = is_naive b \<and> instant a = instant b"

definition dt_lt :: "datetime \<Rightarrow> datetime \<Rightarrow> exn + bool" where
  "dt_lt a b =
     (if is_naive a = is_naive b then Inr (instant a < instant b)
      else Inl (TypeError ''can't compare offset-naive and offset-aware datetimes''))"

text \<open>
  \<^verbatim>\<open><\<close> on the key tuples: the first position where the two differ decides.
\<close>

type_synonym sort_key = "datetime \<times> datetime \<times> datetime"

fun key_lt :: "sort_key \<Rightarrow> sort_key \<Rightarrow> exn + bool" where
  "key_lt (a1, a2, a3) (b1, b2, b3) =
     (if \<not> dt_eq a1 b1 then dt_lt a1 b1
      else if \<not> dt_eq a2 b2 then dt_lt a2 b2
      else if \<not> dt_eq a3 b3 then dt_lt a3 b3
      else Inr False)"

text \<open>
  The library functions the selector calls and the scripts do not define:
  \<^verbatim>\<open>datetime.fromisoformat\<close>, \<^verbatim>\<open>datetime.isoformat\<close> and
  \<^verbatim>\<open>strftime('%Y-%m-%d %H:%M:%S')\<close>. They are parameters.
\<close>

record pylib =
  fromisoformat :: "string \<Rightarrow> exn + datetime"
  isoformat :: "datetime \<Rightarrow> string"
  strftime :: "datetime \<Rightarrow> string"

text \<open>
  \<^verbatim>\<open>
  def parse_rfc3339(ts):
      if ts.endswith("Z"):
          ts = ts[:-1] + "+00:00"
      return datetime.fromisoformat(ts)
  \<close>
\<close>

definition parse_rfc3339 :: "pylib \<Rightarrow> string \<Rightarrow> exn + datetime" where
  "parse_rfc3339 lib ts =
     (if ts \<noteq> [] \<and> last ts = CHR ''Z'' then fromisoformat lib (butlast ts @ ''+00:00'')
      else fromisoformat lib ts)"

definition is_digit :: "char \<Rightarrow> bool" where
  "is_digit ch \<longleftrightarrow> 48 \<le> (of_char ch :: nat) \<and> (of_char ch :: nat) \<le> 57"

text \<open>
  \<^verbatim>\<open>re.search(r"(\d{6})(?:_(\d{6}))?", suffix)\<close>: the leftmost six digits in a row, and the
  text after them.
\<close>

fun search_six_digits :: "string \<Rightarrow> (string \<times> string) option" where
  "search_six_digits [] = None"
| "search_six_digits (ch # rest) =
     (if 6 \<le> length (ch # rest) \<and> list_all is_digit (take 6 (ch # rest))
      then Some (take 6 (ch # rest), drop 6 (ch # rest))
      else search_six_digits rest)"

definition optional_time_group :: "string \<Rightarrow> string option" where
  "optional_time_group after =
     (case after of
        [] \<Rightarrow> None
      | ch # rest \<Rightarrow>
          if ch = CHR ''_'' \<and> 6 \<le> length rest \<and> list_all is_digit (take 6 rest)
          then Some (take 6 rest) else None)"

text \<open>\<^verbatim>\<open>int(s)\<close> on a string of decimal digits.\<close>

definition int_of_digits :: "string \<Rightarrow> int" where
  "int_of_digits s = foldl (\<lambda>acc ch. acc * 10 + (of_char ch - 48)) 0 s"

text \<open>
  \<^verbatim>\<open>
  def parse_timestamp_from_name(name, prefix):
      if not name.startswith(prefix):
          return None
      suffix = name[len(prefix):]
      match = re.search(r"(\d{6})(?:_(\d{6}))?", suffix)
      if not match:
          return None
      yymmdd = match.group(1)
      hhmmss = match.group(2) or "000000"
      try:
          yy = int(yymmdd[0:2]); year = 2000 + yy
          month = int(yymmdd[2:4]); day = int(yymmdd[4:6])
          hour = int(hhmmss[0:2]); minute = int(hhmmss[2:4]); second = int(hhmmss[4:6])
          return datetime(year, month, day, hour, minute, second)
      except ValueError:
          return None
  \<close>
\<close>

definition parse_timestamp_from_name :: "string \<Rightarrow> string \<Rightarrow> datetime option" where
  "parse_timestamp_from_name name prefix =
     (if \<not> startswith name prefix then None
      else
        (case search_six_digits (drop (length prefix) name) of
           None \<Rightarrow> None
         | Some (yymmdd, after) \<Rightarrow>
             (let hhmmss = (case optional_time_group after of Some g \<Rightarrow> g | None \<Rightarrow> ''000000'');
                  yy = int_of_digits (take 2 yymmdd);
                  year = 2000 + yy;
                  month = int_of_digits (take 2 (drop 2 yymmdd));
                  day = int_of_digits (take 2 (drop 4 yymmdd));
                  hour = int_of_digits (take 2 hhmmss);
                  minute = int_of_digits (take 2 (drop 2 hhmmss));
                  second = int_of_digits (take 2 (drop 4 hhmmss))
              in (case datetime_new year month day hour minute second of
                    Inr t \<Rightarrow> Some t
                  | Inl e \<Rightarrow> None))))"

text \<open>
  \<^verbatim>\<open>
  def sort_key(f):
      name = f.get("name", "")
      name_ts = parse_timestamp_from_name(name, prefix) or datetime.min
      modified_ts = parse_rfc3339(f.get("modifiedTime")) if f.get("modifiedTime") else datetime.min
      created_ts = parse_rfc3339(f.get("createdTime")) if f.get("createdTime") else datetime.min
      return (name_ts, modified_ts, created_ts)
  \<close>
\<close>

definition optional_rfc3339 :: "pylib \<Rightarrow> string option \<Rightarrow> exn + datetime option" where
  "optional_rfc3339 lib field =
     (case field of
        None \<Rightarrow> Inr None
      | Some ts \<Rightarrow>
          if ts = [] then Inr None
          else (case parse_rfc3339 lib ts of Inl e \<Rightarrow> Inl e | Inr t \<Rightarrow> Inr (Some t)))"

definition or_min :: "datetime option \<Rightarrow> datetime" where
  "or_min t = (case t of Some v \<Rightarrow> v | None \<Rightarrow> datetime_min)"

definition sort_key :: "pylib \<Rightarrow> string \<Rightarrow> drive_file \<Rightarrow> exn + sort_key" where
  "sort_key lib prefix f =
     (let name_ts = or_min (parse_timestamp_from_name (f_name f) prefix) in
      case optional_rfc3339 lib (modifiedTime f) of
        Inl e \<Rightarrow> Inl e
      | Inr modified_ts \<Rightarrow>
          (case optional_rfc3339 lib (createdTime f) of
             Inl e \<Rightarrow> Inl e
           | Inr created_ts \<Rightarrow> Inr (name_ts, or_min modified_ts, or_min created_ts)))"

text \<open>
  \<^verbatim>\<open>candidates.sort(key=sort_key, reverse=True)\<close>. \<^verbatim>\<open>list.sort\<close> first computes the key of
  every element, in order; then it sorts by \<^verbatim>\<open><\<close> on the keys, stably, also with
  \<^verbatim>\<open>reverse=True\<close>: elements with equal keys keep their order. The sort is modelled as
  an insertion sort from the right, which puts an element before the ones it is not
  smaller than; a comparison that raises ends the sort with that exception. (A sort that
  is correct on every total preorder has to compare two keys that only their mutual
  comparison can order, so every such sort raises on the same lists.)
\<close>

fun keyed :: "('a \<Rightarrow> exn + 'k) \<Rightarrow> 'a list \<Rightarrow> exn + ('k \<times> 'a) list" where
  "keyed key [] = Inr []"
| "keyed key (x # xs) =
     (case key x of
        Inl e \<Rightarrow> Inl e
      | Inr k \<Rightarrow> (case keyed key xs of Inl e \<Rightarrow> Inl e | Inr ks \<Rightarrow> Inr ((k, x) # ks)))"

fun insert_desc ::
  "('k \<Rightarrow> 'k \<Rightarrow> exn + bool) \<Rightarrow> 'k \<times> 'a \<Rightarrow> ('k \<times> 'a) list \<Rightarrow> exn + ('k \<times> 'a) list" where
  "insert_desc lt x [] = Inr [x]"
| "insert_desc lt x (y # ys) =
     (case lt (fst x) (fst y) of
        Inl e \<Rightarrow> Inl e
      | Inr smaller \<Rightarrow>
          if smaller
          then (case insert_desc lt x ys of Inl e \<Rightarrow> Inl e | Inr r \<Rightarrow> Inr (y # r))
          else Inr (x # y # ys))"

fun sort_desc :: "('k \<Rightarrow> 'k \<Rightarrow> exn + bool) \<Rightarrow> ('k \<times> 'a) list \<Rightarrow> exn + ('k \<times> 'a) list" where
  "sort_desc lt [] = Inr []"
| "sort_desc lt (x # xs) =
     (case sort_desc lt xs of Inl e \<Rightarrow> Inl e | Inr ys \<Rightarrow> insert_desc lt x ys)"

definition sort_reverse ::
  "('a \<Rightarrow> exn + 'k) \<Rightarrow> ('k \<Rightarrow> 'k \<Rightarrow> exn + bool) \<Rightarrow> 'a list \<Rightarrow> exn + 'a list" where
  "sort_reverse key lt xs =
     (case keyed key xs of
        Inl e \<Rightarrow> Inl e
      | Inr ks \<Rightarrow> (case sort_desc lt ks of Inl e \<Rightarrow> Inl e | Inr ordered \<Rightarrow> Inr (map snd ordered)))"

text \<open>
  \<^verbatim>\<open>
  def select_latest_file(files, prefix, exclude_prefixes=None):
      exclude_prefixes = exclude_prefixes or []
      candidates = []
      for f in files:
          name = f.get("name", "")
          if not name.startswith(prefix):
              continue
          if any(name.startswith(ex) for ex in exclude_prefixes):
              continue
          candidates.append(f)
      if not candidates:
          return None
      ...
      candidates.sort(key=sort_key, reverse=True)
      return candidates[0]
  \<close>
\<close>

definition is_candidate :: "string \<Rightarrow> string list \<Rightarrow> drive_file \<Rightarrow> bool" where
  "is_candidate prefix exclude_prefixes f \<longleftrightarrow>
     startswith (f_name f) prefix \<and> \<not> list_ex (\<lambda>ex. startswith (f_name f) ex) exclude_prefixes"

definition select_latest_file ::
  "pylib \<Rightarrow> drive_file list \<Rightarrow> string \<Rightarrow> string list \<Rightarrow> exn + drive_file option" where
  "select_latest_file lib files prefix exclude_prefixes =
     (let candidates = filter (is_candidate prefix exclude_prefixes) files in
      if candidates = [] then Inr None
      else
        (case sort_reverse (sort_key lib prefix) key_lt candidates of
           Inl e \<Rightarrow> Inl e
         | Inr ordered \<Rightarrow>
             (case ordered of
                [] \<Rightarrow> Inl (IndexError ''list index out of range'')
              | f # rest \<Rightarrow> Inr (Some f))))"

text \<open>
  \<^verbatim>\<open>
  def get_selection_reason(file_info, prefix):
      name = file_info.get("name", "")
      name_ts = parse_timestamp_from_name(name, prefix)
      if name_ts:
          return f"name_timestamp={name_ts.strftime('%Y-%m-%d %H:%M:%S')}"
      modified_ts = parse_rfc3339(file_info.get("modifiedTime")) if file_info.get("modifiedTime") else None
      if modified_ts:
          return f"modifiedTime={modified_ts.isoformat()}"
      created_ts = parse_rfc3339(file_info.get("createdTime")) if file_info.get("createdTime") else None
      if created_ts:
          return f"createdTime={created_ts.isoformat()}"
      return "no_timestamp"
  \<close>
\<close>

definition get_selection_reason :: "pylib \<Rightarrow> drive_file \<Rightarrow> string \<Rightarrow> exn + string" where
  "get_selection_reason lib file_info prefix =
     (case parse_timestamp_from_name (f_name file_info) prefix of
        Some name_ts \<Rightarrow> Inr (''name_timestamp='' @ strftime lib name_ts)
      | None \<Rightarrow>
          (case optional_rfc3339 lib (modifiedTime file_info) of
             Inl e \<Rightarrow> Inl e
           | Inr (Some modified_ts) \<Rightarrow> Inr (''modifiedTime='' @ isoformat lib modified_ts)
           | Inr None \<Rightarrow>
               (case optional_rfc3339 lib (createdTime file_info) of
                  Inl e \<Rightarrow> Inl e
                | Inr (Some created_ts) \<Rightarrow> Inr (''createdTime='' @ isoformat lib created_ts)
                | Inr None \<Rightarrow> Inr ''no_timestamp'')))"

section \<open>Sheet properties and the ledger metadata store\<close>

text \<open>The dictionary \<^verbatim>\<open>{"sheetId": .., "rowCount": .., "columnCount": ..}\<close> of one tab.\<close>

record props =
  sheetId :: int
  rowCount :: int
  columnCount :: int

text \<open>
  \<^verbatim>\<open>
  for sheet in response.get("sheets", []):
      props = sheet.get("properties", {})
      title = props.get("title")
      if not title:
          continue
      result[title] = {"sheetId": props.get("sheetId", 0),
                       "rowCount": props.get("gridProperties", {}).get("rowCount", 0),
                       "columnCount": props.get("gridProperties", {}).get("columnCount", 0)}
  \<close>
\<close>

definition or_zero :: "int option \<Rightarrow> int" where
  "or_zero v = (case v of Some n \<Rightarrow> n | None \<Rightarrow> 0)"

fun sheet_props_loop :: "sheet_json list \<Rightarrow> (string \<rightharpoonup> props) \<Rightarrow> (string \<rightharpoonup> props)" where
  "sheet_props_loop [] result = result"
| "sheet_props_loop (sheet # rest) result =
     (case p_title sheet of
        None \<Rightarrow> sheet_props_loop rest result
      | Some title \<Rightarrow>
          if title = [] then sheet_props_loop rest result
          else sheet_props_loop rest
                 (result(title \<mapsto> \<lparr>sheetId = or_zero (p_sheetId sheet),
                                      rowCount = or_zero (p_rowCount sheet),
                                      columnCount = or_zero (p_columnCount sheet)\<rparr>)))"

definition get_sheet_properties_map :: "'w service \<Rightarrow> string \<Rightarrow> ('w, string \<rightharpoonup> props) prog" where
  "get_sheet_properties_map svc spreadsheet_id =
     and_then (py_print ''[INFO] Sheet properties read start'') (\<lambda>_.
     and_then (exec_request svc (SpreadsheetsGet spreadsheet_id)) (\<lambda>response.
     and_then (py_print ''[INFO] Sheet properties read done'') (\<lambda>_.
     ret (sheet_props_loop (resp_sheets response) Map.empty))))"

text \<open>
  \<^verbatim>\<open>meta_rows\<close> is a dictionary read from JSON; it is kept as the list of its items, in
  the order \<^verbatim>\<open>meta_rows.items()\<close> gives them, and looked up with \<open>map_of\<close>.

  Row-indexed read, one cell per tab (\<^verbatim>\<open>get_master_meta_map\<close> with \<^verbatim>\<open>meta_rows\<close>, and
  \<^verbatim>\<open>get_master_meta_from_rows\<close> of the freeze script):
  \<^verbatim>\<open>
  for tab_name, row_idx in meta_rows.items():
      cell = f"'{meta_sheet}'!B{row_idx}"
      response = exec_request(...get(spreadsheetId=spreadsheet_id, range=cell,
                                     valueRenderOption="UNFORMATTED_VALUE"))
      values = response.get("values", [])
      if values and values[0]:
          result[tab_name] = str(values[0][0]).strip().upper()
      print(f"[INFO] Master meta cell read: {cell} -> {result.get(tab_name, '')}")
  \<close>
\<close>

definition get_or_empty :: "(string \<rightharpoonup> string) \<Rightarrow> string \<Rightarrow> string" where
  "get_or_empty m k = (case m k of Some v \<Rightarrow> v | None \<Rightarrow> [])"

fun meta_rows_loop ::
  "'w service \<Rightarrow> string \<Rightarrow> string \<Rightarrow> (string \<times> int) list \<Rightarrow> (string \<rightharpoonup> string) \<Rightarrow>
   ('w, string \<rightharpoonup> string) prog" where
  "meta_rows_loop svc spreadsheet_id meta_sheet [] result = ret result"
| "meta_rows_loop svc spreadsheet_id meta_sheet ((tab_name, row_idx) # rest) result =
     (let cell = Range meta_sheet (Cell ''B'' row_idx) in
      and_then (exec_request svc (ValuesGet spreadsheet_id cell (Some UNFORMATTED_VALUE)))
        (\<lambda>response.
      let result1 =
            (case resp_values response of
               (v # row) # rows \<Rightarrow> result(tab_name \<mapsto> upper (strip (py_str v)))
             | _ \<Rightarrow> result)
      in
      and_then (py_print (''[INFO] Master meta cell read: '' @ range_name cell @ '' -> ''
                          @ get_or_empty result1 tab_name)) (\<lambda>_.
      meta_rows_loop svc spreadsheet_id meta_sheet rest result1)))"

text \<open>
  Table scan (\<^verbatim>\<open>get_master_meta_map\<close> without \<^verbatim>\<open>meta_rows\<close>):
  \<^verbatim>\<open>
  for row in values[1:]:
      if len(row) < 2:
          continue
      tab_name = str(row[0]).strip()
      last_col = str(row[1]).strip().upper()
      if tab_name and last_col:
          result[tab_name] = last_col
  \<close>
\<close>

fun meta_table_loop :: "cell list list \<Rightarrow> (string \<rightharpoonup> string) \<Rightarrow> (string \<rightharpoonup> string)" where
  "meta_table_loop [] result = result"
| "meta_table_loop (row # rest) result =
     (case row of
        c0 # c1 # others \<Rightarrow>
          (let tab_name = strip (py_str c0);
               last_col = upper (strip (py_str c1))
           in if tab_name \<noteq> [] \<and> last_col \<noteq> []
              then meta_table_loop rest (result(tab_name \<mapsto> last_col))
              else meta_table_loop rest result)
      | _ \<Rightarrow> meta_table_loop rest result)"

definition get_master_meta_map ::
  "'w service \<Rightarrow> string \<Rightarrow> string \<Rightarrow> string \<Rightarrow> (string \<times> int) list \<Rightarrow>
   ('w, string \<rightharpoonup> string) prog" where
  "get_master_meta_map svc spreadsheet_id meta_sheet meta_range meta_rows =
     and_then (py_print (''[INFO] Master meta read start: '' @ meta_sheet)) (\<lambda>_.
     if meta_rows \<noteq> [] then
       and_then (meta_rows_loop svc spreadsheet_id meta_sheet meta_rows Map.empty) (\<lambda>result.
       and_then (py_print (''[INFO] Master meta read done: '' @ meta_sheet)) (\<lambda>_.
       ret result))
     else
       and_then (exec_request svc
                   (ValuesGet spreadsheet_id (Range meta_sheet (A1 meta_range)) (Some FORMATTED_VALUE)))
         (\<lambda>response.
       and_then (py_print (''[INFO] Master meta read done: '' @ meta_sheet)) (\<lambda>_.
       ret (meta_table_loop (drop 1 (resp_values response)) Map.empty))))"

text \<open>
  \<^verbatim>\<open>update_master_meta\<close>: the only function of the update script that writes to the
  metadata sheet. With a row for the tab in \<^verbatim>\<open>meta_rows\<close> it writes that row's cell B;
  otherwise it scans the table for the tab and writes the first matching row, or nothing.
  \<^verbatim>\<open>
  for idx, row in enumerate(values[1:], start=2):
      if row and str(row[0]).strip() == tab_name:
          exec_request(...update(range=f"'{meta_sheet}'!B{idx}", valueInputOption="RAW",
                                 body={"values": [[new_col]]}))
          print(f"[INFO] Master meta update done: {meta_sheet} ({tab_name} -> {new_col})")
          return
  \<close>
\<close>

definition meta_update_request :: "string \<Rightarrow> string \<Rightarrow> int \<Rightarrow> string \<Rightarrow> request" where
  "meta_update_request spreadsheet_id meta_sheet row_idx new_col =
     ValuesUpdate spreadsheet_id (Range meta_sheet (Cell ''B'' row_idx)) RAW [[CellStr new_col]]"

definition meta_update_done :: "string \<Rightarrow> string \<Rightarrow> string \<Rightarrow> string" where
  "meta_update_done meta_sheet tab_name new_col =
     ''[INFO] Master meta update done: '' @ meta_sheet @ '' ('' @ tab_name @ '' -> '' @ new_col @ '')''"

fun meta_scan_loop ::
  "'w service \<Rightarrow> string \<Rightarrow> string \<Rightarrow> string \<Rightarrow> string \<Rightarrow> int \<Rightarrow> cell list list \<Rightarrow> ('w, unit) prog"
  where
  "meta_scan_loop svc spreadsheet_id meta_sheet tab_name new_col idx [] = ret ()"
| "meta_scan_loop svc spreadsheet_id meta_sheet tab_name new_col idx (row # rest) =
     (case row of
        c0 # others \<Rightarrow>
          if strip (py_str c0) = tab_name then
            and_then (exec_request svc (meta_update_request spreadsheet_id meta_sheet idx new_col))
              (\<lambda>_.
            py_print (meta_update_done meta_sheet tab_name new_col))
          else meta_scan_loop svc spreadsheet_id meta_sheet tab_name new_col (idx + 1) rest
      | [] \<Rightarrow> meta_scan_loop svc spreadsheet_id meta_sheet tab_name new_col (idx + 1) rest)"

definition update_master_meta ::
  "'w service \<Rightarrow> string \<Rightarrow> string \<Rightarrow> string \<Rightarrow> (string \<times> int) list \<Rightarrow> string \<Rightarrow> string \<Rightarrow>
   ('w, unit) prog" where
  "update_master_meta svc spreadsheet_id meta_sheet meta_range meta_rows tab_name new_col =
     and_then (py_print (''[INFO] Master meta update start: '' @ meta_sheet @ '' ('' @ tab_name
                         @ '' -> '' @ new_col @ '')'')) (\<lambda>_.
     case map_of meta_rows tab_name of
       Some row_idx \<Rightarrow>
         and_then (exec_request svc (meta_update_request spreadsheet_id meta_sheet row_idx new_col))
           (\<lambda>_.
         py_print (meta_update_done meta_sheet tab_name new_col))
     | None \<Rightarrow>
         and_then (exec_request svc
                     (ValuesGet spreadsheet_id (Range meta_sheet (A1 meta_range)) (Some FORMATTED_VALUE)))
           (\<lambda>response.
         meta_scan_loop svc spreadsheet_id meta_sheet tab_name new_col 2
           (drop 1 (resp_values response))))"

section \<open>Ledger append engine\<close>

text \<open>
  One pass of the body of the chunk loop of \<^verbatim>\<open>update_master_tab\<close> (lines 408-458), for the
  rows \<open>start_row_num\<close> to \<open>end_row_num\<close>. \<open>freeze\<close> is the global
  \<^verbatim>\<open>MASTER_FREEZE_VALUES\<close>.
  \<^verbatim>\<open>
  formula_range = f"'{tab_name}'!{prev_col_letter}{start_row_num}:{prev_col_letter}{end_row_num}"
  formulas = exec_request(...get(range=formula_range, valueRenderOption="FORMULA")).get("values", [])
  if formulas:
      exec_request(...update(range=f"'{tab_name}'!{new_col_letter}{start_row_num}",
                             valueInputOption="USER_ENTERED", body={"values": formulas}))
  if MASTER_FREEZE_VALUES:
      values = exec_request(...get(range=formula_range,
                                   valueRenderOption="UNFORMATTED_VALUE")).get("values", [])
      if values:
          exec_request(...update(range=f"'{tab_name}'!{prev_col_letter}{start_row_num}",
                                 valueInputOption="RAW", body={"values": values}))
  \<close>
\<close>

definition rows_text :: "int \<Rightarrow> int \<Rightarrow> string" where
  "rows_text start_row_num end_row_num = str_int start_row_num @ ''-'' @ str_int end_row_num"

definition master_copy_chunk ::
  "'w service \<Rightarrow> bool \<Rightarrow> string \<Rightarrow> string \<Rightarrow> string \<Rightarrow> string \<Rightarrow> int \<Rightarrow> int \<Rightarrow> int \<Rightarrow>
   ('w, unit) prog" where
  "master_copy_chunk svc freeze spreadsheet_id tab_name prev_col_letter new_col_letter
     chunk_idx start_row_num end_row_num =
     (let formula_range = Range tab_name (Span prev_col_letter start_row_num prev_col_letter end_row_num);
          rows = '' ('' @ rows_text start_row_num end_row_num @ '')''
      in
      and_then (py_print (''[INFO] Master tab chunk formula read start: '' @ tab_name @ rows)) (\<lambda>_.
      and_then (exec_request svc (ValuesGet spreadsheet_id formula_range (Some FORMULA)))
        (\<lambda>response.
      let formulas = resp_values response in
      and_then (py_print (''[INFO] Master tab chunk formula read done: '' @ tab_name @ rows)) (\<lambda>_.
      and_then
        (if formulas \<noteq> [] then
           and_then (exec_request svc
                       (ValuesUpdate spreadsheet_id (Range tab_name (Cell new_col_letter start_row_num))
                          USER_ENTERED formulas)) (\<lambda>_. ret ())
         else ret ()) (\<lambda>_.
      and_then
        (if freeze then
           and_then (py_print (''[INFO] Master tab chunk value read start: '' @ tab_name @ rows)) (\<lambda>_.
           and_then (exec_request svc (ValuesGet spreadsheet_id formula_range (Some UNFORMATTED_VALUE)))
             (\<lambda>response2.
           let values = resp_values response2 in
           and_then (py_print (''[INFO] Master tab chunk value read done: '' @ tab_name @ rows)) (\<lambda>_.
           if values \<noteq> [] then
             and_then (exec_request svc
                         (ValuesUpdate spreadsheet_id (Range tab_name (Cell prev_col_letter start_row_num))
                            RAW values)) (\<lambda>_. ret ())
           else ret ())))
         else ret ()) (\<lambda>_.
      py_print (''[INFO] Master tab chunk done: '' @ tab_name @ '' ('' @ str_int chunk_idx
                @ '') rows '' @ rows_text start_row_num end_row_num)))))))"

text \<open>
  The chunk loop (lines 403-460):
  \<^verbatim>\<open>
  chunk = max(1, chunk_size)
  row = data_start_row
  chunk_idx = 1
  while row < data_end_row:
      chunk_end = min(row + chunk, data_end_row)
      start_row_num = row + 1
      end_row_num = chunk_end
      ...
      row = chunk_end
      chunk_idx += 1
  \<close>
  The loop is a recursive function of \<open>row\<close> and \<open>chunk_idx\<close>. \<open>chunk\<close> does not change in
  the loop; the function takes \<open>chunk_size\<close> and forms \<open>max 1 chunk_size\<close> itself, so that it
  is a total function of its arguments whatever \<open>chunk_size\<close> is.
\<close>

function master_chunk_loop ::
  "'w service \<Rightarrow> bool \<Rightarrow> string \<Rightarrow> string \<Rightarrow> string \<Rightarrow> string \<Rightarrow> int \<Rightarrow> int \<Rightarrow> int \<Rightarrow> int \<Rightarrow>
   ('w, unit) prog" where
  "master_chunk_loop svc freeze spreadsheet_id tab_name prev_col_letter new_col_letter
     chunk_size data_end_row row chunk_idx =
     (if row < data_end_row then
        (let chunk = max 1 chunk_size;
             chunk_end = min (row + chunk) data_end_row;
             start_row_num = row + 1;
             end_row_num = chunk_end
         in
         and_then (master_copy_chunk svc freeze spreadsheet_id tab_name prev_col_letter
                     new_col_letter chunk_idx start_row_num end_row_num) (\<lambda>_.
         master_chunk_loop svc freeze spreadsheet_id tab_name prev_col_letter new_col_letter
           chunk_size data_end_row chunk_end (chunk_idx + 1)))
      else ret ())"
  by pat_completeness auto
termination
  by (relation "measure (\<lambda>(svc, freeze, spreadsheet_id, tab_name, prev_col_letter, new_col_letter,
                           chunk_size, data_end_row, row, chunk_idx). nat (data_end_row - row))")
     auto

declare master_chunk_loop.simps [simp del]

text \<open>
  \<^verbatim>\<open>update_master_tab\<close> (lines 339-465). \<open>monday_str\<close> is what \<^verbatim>\<open>get_week_monday_str()\<close>
  returns, read from the clock; \<^verbatim>\<open>last_date_value\<close> and \<^verbatim>\<open>new_col_index_zero\<close> are
  computed and never used.
\<close>

definition update_master_tab ::
  "'w service \<Rightarrow> bool \<Rightarrow> string \<Rightarrow> string \<Rightarrow> string \<Rightarrow> string \<Rightarrow> int \<Rightarrow> int \<Rightarrow> int \<Rightarrow> int \<Rightarrow> int \<Rightarrow>
   ('w, string) prog" where
  "update_master_tab svc freeze monday_str spreadsheet_id tab_name last_date_col sheet_id
     row_count column_count max_rows chunk_size =
     and_then (py_print (''[INFO] Master tab start: '' @ tab_name)) (\<lambda>_.
     let last_date_col_index = a1_to_col last_date_col;
         new_col_index = last_date_col_index + 1;
         effective_rows = (if max_rows > 0 then min row_count max_rows else row_count)
     in
     if effective_rows \<le> 1 then
       and_then (py_print (''[SKIP] No data rows in master tab: '' @ tab_name)) (\<lambda>_.
       ret last_date_col)
     else
       (let prev_col_index = last_date_col_index - 1;
            new_col_letter = col_to_a1 new_col_index;
            prev_col_letter = col_to_a1 (prev_col_index + 1);
            data_start_row = 1;
            data_end_row = effective_rows
        in
        and_then
          (if new_col_index > column_count then
             and_then (py_print (''[INFO] Master tab expand columns: '' @ tab_name @ '' (''
                                 @ str_int column_count @ '' -> '' @ str_int new_col_index @ '')''))
               (\<lambda>_.
             and_then (exec_request svc (UpdateColumnCount spreadsheet_id sheet_id new_col_index))
               (\<lambda>_. ret ()))
           else ret ()) (\<lambda>_.
        and_then (py_print (''[INFO] Master tab header update: '' @ tab_name)) (\<lambda>_.
        and_then (exec_request svc
                    (ValuesUpdate spreadsheet_id (Range tab_name (Cell new_col_letter 1)) RAW
                       [[CellStr monday_str]])) (\<lambda>_.
        and_then (py_print (''[INFO] Master tab chunked copy start: '' @ tab_name @ '' (rows: ''
                            @ str_int effective_rows @ '', chunk: '' @ str_int (max 1 chunk_size)
                            @ '')'')) (\<lambda>_.
        and_then (master_chunk_loop svc freeze spreadsheet_id tab_name prev_col_letter
                    new_col_letter chunk_size data_end_row data_start_row 1) (\<lambda>_.
        and_then (py_print (''[INFO] Master tab chunked copy done: '' @ tab_name)) (\<lambda>_.
        and_then (py_print (''[SYNC] Master tab updated: '' @ tab_name @ '' -> '' @ monday_str)) (\<lambda>_.
        ret (col_to_a1 new_col_index))))))))))"

section \<open>Extraction stage\<close>

definition read_source_values ::
  "'w service \<Rightarrow> string \<Rightarrow> string \<Rightarrow> string \<Rightarrow> ('w, cell list list) prog" where
  "read_source_values svc spreadsheet_id sheet_name source_range =
     and_then (exec_request svc (ValuesGet spreadsheet_id (Range sheet_name (A1 source_range)) None))
       (\<lambda>response. ret (resp_values response))"

definition clear_target_range :: "'w service \<Rightarrow> string \<Rightarrow> string \<Rightarrow> string \<Rightarrow> ('w, unit) prog" where
  "clear_target_range svc spreadsheet_id tab_name target_range =
     and_then (exec_request svc (ValuesClear spreadsheet_id (Range tab_name (A1 target_range))))
       (\<lambda>_. ret ())"

text \<open>
  \<^verbatim>\<open>
  def write_target_values(sheets_service, spreadsheet_id, tab_name, values):
      if not values:
          return
      range_name = f"'{tab_name}'!A1"
      exec_request(...update(spreadsheetId=spreadsheet_id, range=range_name,
                             valueInputOption="RAW", body={"values": values}))
  \<close>
\<close>

definition write_target_values ::
  "'w service \<Rightarrow> string \<Rightarrow> string \<Rightarrow> cell list list \<Rightarrow> ('w, unit) prog" where
  "write_target_values svc spreadsheet_id tab_name values =
     (if values = [] then ret ()
      else
        and_then (exec_request svc
                    (ValuesUpdate spreadsheet_id (Range tab_name (Cell ''A'' 1)) RAW values))
          (\<lambda>_. ret ()))"

section \<open>The update job\<close>

text \<open>
  The configuration file, as \<^verbatim>\<open>run_update\<close> and \<^verbatim>\<open>run_freeze\<close> read it (the optional
  keys with their defaults filled in; the dictionaries as the lists of their items).
\<close>

record mapping =
  prefix :: string
  target_tab :: string
  exclude_prefixes :: "string list"

record config =
  drive_folder_id :: string
  target_sheet_id :: string
  source_sheet_name :: string
  source_range :: string
  target_range :: string
  mappings :: "mapping list"
  master_tabs :: "string list"
  master_meta_sheet :: string
  master_meta_range :: string
  master_meta_rows :: "(string \<times> int) list"
  master_meta_override :: "(string \<times> string) list"

text \<open>
  What the update script reads from the process environment and the clock:
  \<^verbatim>\<open>COMPETITOR_RUN_MODE\<close> (lower-cased), \<^verbatim>\<open>COMPETITOR_MASTER_ONLY_TAB\<close> (stripped),
  \<^verbatim>\<open>COMPETITOR_MASTER_FREEZE\<close>, the row ceiling and the chunk size (the environment
  variable, or the configuration key with its default, as an integer), and the Monday
  of the current week.
\<close>

record env =
  run_mode :: string
  master_only_tab :: string
  master_freeze_values :: bool
  master_max_rows :: int
  master_chunk_size :: int
  week_monday :: string

text \<open>
  \<^verbatim>\<open>try: body except HttpError as exc: handler\<close>, followed by \<open>rest\<close> when the body
  returns; the handler ends the loop pass (\<^verbatim>\<open>continue\<close>).
\<close>

definition try_except_http ::
  "('w, 'a) prog \<Rightarrow> (string \<Rightarrow> ('w, 'b) prog) \<Rightarrow> ('a \<Rightarrow> ('w, 'b) prog) \<Rightarrow> ('w, 'b) prog" where
  "try_except_http body handler rest w =
     (case body w of
        (Inl (Remote (HttpError m)), w1, ev1) \<Rightarrow>
          (case handler m w1 of (r, w2, ev2) \<Rightarrow> (r, w2, ev1 @ ev2))
      | (Inl e, w1, ev1) \<Rightarrow> (Inl e, w1, ev1)
      | (Inr a, w1, ev1) \<Rightarrow> (case rest a w1 of (r, w2, ev2) \<Rightarrow> (r, w2, ev1 @ ev2)))"

definition lift :: "exn + 'a \<Rightarrow> ('w, 'a) prog" where
  "lift r = (case r of Inl e \<Rightarrow> raise e | Inr a \<Rightarrow> ret a)"

text \<open>
  One pass of the loop over the mappings (lines 574-605).
\<close>

definition extract_mapping ::
  "'w service \<Rightarrow> pylib \<Rightarrow> config \<Rightarrow> drive_file list \<Rightarrow> (string \<rightharpoonup> props) \<Rightarrow> mapping \<Rightarrow>
   ('w, unit) prog" where
  "extract_mapping svc lib cfg files sheet_props m =
     (if sheet_props (target_tab m) = None then
        raise (TabMissingError (''Target tab not found: '' @ target_tab m))
      else
        and_then (lift (select_latest_file lib files (prefix m) (exclude_prefixes m)))
          (\<lambda>latest.
        case latest of
          None \<Rightarrow> py_print (''[SKIP] No file found for prefix: '' @ prefix m)
        | Some latest_file \<Rightarrow>
            (let source_id = f_id latest_file;
                 source_name = f_name latest_file
             in
             and_then (lift (get_selection_reason lib latest_file (prefix m))) (\<lambda>reason.
             and_then (py_print (''[SYNC] '' @ prefix m @ '' -> '' @ target_tab m @ '' (source: ''
                                 @ source_name @ '', reason: '' @ reason @ '')'')) (\<lambda>_.
             try_except_http
               (and_then (py_print (''[INFO] Read source start: '' @ source_name)) (\<lambda>_.
                and_then (read_source_values svc source_id (source_sheet_name cfg) (source_range cfg))
                  (\<lambda>values.
                and_then (py_print (''[INFO] Read source done: '' @ source_name @ '' (rows: ''
                                    @ str_int (int (length values)) @ '')'')) (\<lambda>_.
                ret values))))
               (\<lambda>exc. py_print (''[SKIP] Failed to read source sheet for '' @ prefix m @ '': '' @ exc))
               (\<lambda>values.
                and_then (py_print (''[INFO] Clear target start: '' @ target_tab m)) (\<lambda>_.
                and_then (clear_target_range svc (target_sheet_id cfg) (target_tab m) (target_range cfg))
                  (\<lambda>_.
                and_then (py_print (''[INFO] Clear target done: '' @ target_tab m)) (\<lambda>_.
                and_then (py_print (''[INFO] Write target start: '' @ target_tab m)) (\<lambda>_.
                and_then (write_target_values svc (target_sheet_id cfg) (target_tab m) values) (\<lambda>_.
                py_print (''[INFO] Write target done: '' @ target_tab m))))))))))))"

fun extract_loop ::
  "'w service \<Rightarrow> pylib \<Rightarrow> config \<Rightarrow> drive_file list \<Rightarrow> (string \<rightharpoonup> props) \<Rightarrow> mapping list \<Rightarrow>
   ('w, unit) prog" where
  "extract_loop svc lib cfg files sheet_props [] = ret ()"
| "extract_loop svc lib cfg files sheet_props (m # rest) =
     and_then (extract_mapping svc lib cfg files sheet_props m) (\<lambda>_.
     extract_loop svc lib cfg files sheet_props rest)"

text \<open>
  One pass of the loop over the ledger tabs (lines 608-637):
  \<^verbatim>\<open>
  if MASTER_ONLY_TAB and tab_name != MASTER_ONLY_TAB:
      continue
  props = sheet_props.get(tab_name)
  if not props:
      raise TabMissingError(f"Master tab not found: {tab_name}")
  last_date_col = master_meta.get(tab_name)
  if not last_date_col:
      raise TabMissingError(f"Master meta missing for tab: {tab_name}")
  new_col = update_master_tab(...)
  if new_col != last_date_col:
      update_master_meta(..., tab_name, new_col)
  \<close>
\<close>

definition master_tab_step ::
  "'w service \<Rightarrow> env \<Rightarrow> config \<Rightarrow> (string \<rightharpoonup> props) \<Rightarrow> (string \<rightharpoonup> string) \<Rightarrow> string \<Rightarrow>
   ('w, unit) prog" where
  "master_tab_step svc ev cfg sheet_props master_meta tab_name =
     (if master_only_tab ev \<noteq> [] \<and> tab_name \<noteq> master_only_tab ev then ret ()
      else
        (case sheet_props tab_name of
           None \<Rightarrow> raise (TabMissingError (''Master tab not found: '' @ tab_name))
         | Some p \<Rightarrow>
             (case master_meta tab_name of
                None \<Rightarrow> raise (TabMissingError (''Master meta missing for tab: '' @ tab_name))
              | Some last_date_col \<Rightarrow>
                  if last_date_col = [] then
                    raise (TabMissingError (''Master meta missing for tab: '' @ tab_name))
                  else
                    and_then (update_master_tab svc (master_freeze_values ev) (week_monday ev)
                                (target_sheet_id cfg) tab_name last_date_col (sheetId p)
                                (rowCount p) (columnCount p) (master_max_rows ev)
                                (master_chunk_size ev)) (\<lambda>new_col.
                    if new_col \<noteq> last_date_col then
                      update_master_meta svc (target_sheet_id cfg) (master_meta_sheet cfg)
                        (master_meta_range cfg) (master_meta_rows cfg) tab_name new_col
                    else ret ()))))"

fun master_loop ::
  "'w service \<Rightarrow> env \<Rightarrow> config \<Rightarrow> (string \<rightharpoonup> props) \<Rightarrow> (string \<rightharpoonup> string) \<Rightarrow> string list \<Rightarrow>
   ('w, unit) prog" where
  "master_loop svc ev cfg sheet_props master_meta [] = ret ()"
| "master_loop svc ev cfg sheet_props master_meta (tab_name # rest) =
     and_then (master_tab_step svc ev cfg sheet_props master_meta tab_name) (\<lambda>_.
     master_loop svc ev cfg sheet_props master_meta rest)"

text \<open>
  \<^verbatim>\<open>run_update\<close> (lines 531-639), from the loaded configuration and credentials on. The
  recursive listing of the shared drive (\<^verbatim>\<open>list_spreadsheets_recursive\<close>, pages and
  sub-folders) is one remote read here: it returns the files or fails.
\<close>

definition run_update :: "'w service \<Rightarrow> pylib \<Rightarrow> env \<Rightarrow> config \<Rightarrow> ('w, unit) prog" where
  "run_update svc lib ev cfg =
     (let drive_id = drive_folder_id cfg;
          in_master = (run_mode ev = ''both'' \<or> run_mode ev = ''master'');
          in_extract = (run_mode ev = ''both'' \<or> run_mode ev = ''extract'')
      in
      and_then (exec_request svc (DriveListSpreadsheets drive_id drive_id)) (\<lambda>listing.
      let files = resp_files listing in
      and_then (py_print (''Found '' @ str_int (int (length files)) @ '' spreadsheets in shared drive ''
                          @ drive_id @ '' (recursive)'')) (\<lambda>_.
      and_then (get_sheet_properties_map svc (target_sheet_id cfg)) (\<lambda>sheet_props.
      and_then
        (if in_master then
           (if master_meta_override cfg \<noteq> [] then
              and_then (py_print ''[INFO] Master meta override in use'') (\<lambda>_.
              ret (map_of (master_meta_override cfg)))
            else get_master_meta_map svc (target_sheet_id cfg) (master_meta_sheet cfg)
                   (master_meta_range cfg) (master_meta_rows cfg))
         else ret Map.empty) (\<lambda>master_meta.
      and_then
        (if in_extract then extract_loop svc lib cfg files sheet_props (mappings cfg) else ret ())
        (\<lambda>_.
      and_then
        (if in_master then master_loop svc ev cfg sheet_props master_meta (master_tabs cfg)
         else ret ()) (\<lambda>_.
      py_print ''Update completed'')))))))"

text \<open>
  \<^verbatim>\<open>
  RETRY_COUNT = 3
  RETRY_DELAY_SECONDS = 120

  def main():
      for attempt in range(1, RETRY_COUNT + 1):
          try:
              run_update()
              return 0
          except TabMissingError as exc:
              print(f"[FAIL] {exc}")
              return 2
          except Exception as exc:
              print(f"[ERROR] Attempt {attempt}/{RETRY_COUNT}: {exc}")
              if attempt < RETRY_COUNT:
                  time.sleep(RETRY_DELAY_SECONDS)
                  continue
              return 1
      return 1
  \<close>
  The result of \<open>main\<close> is the exit code of the process.
\<close>

definition RETRY_COUNT :: int where
  "RETRY_COUNT = 3"

definition RETRY_DELAY_SECONDS :: nat where
  "RETRY_DELAY_SECONDS = 120"

definition attempt_error :: "int \<Rightarrow> exn \<Rightarrow> event" where
  "attempt_error attempt exc =
     Print (''[ERROR] Attempt '' @ str_int attempt @ ''/'' @ str_int RETRY_COUNT @ '': '' @ exn_str exc)"

fun main_loop ::
  "'w service \<Rightarrow> pylib \<Rightarrow> env \<Rightarrow> config \<Rightarrow> int list \<Rightarrow> 'w \<Rightarrow> int \<times> 'w \<times> event list" where
  "main_loop svc lib ev cfg [] w = (1, w, [])"
| "main_loop svc lib ev cfg (attempt # rest) w =
     (case run_update svc lib ev cfg w of
        (Inr u, w1, ev1) \<Rightarrow> (0, w1, ev1)
      | (Inl (TabMissingError m), w1, ev1) \<Rightarrow> (2, w1, ev1 @ [Print (''[FAIL] '' @ m)])
      | (Inl exc, w1, ev1) \<Rightarrow>
          if attempt < RETRY_COUNT then
            (case main_loop svc lib ev cfg rest w1 of
               (code, w2, ev2) \<Rightarrow>
                 (code, w2, ev1 @ [attempt_error attempt exc, Sleep RETRY_DELAY_SECONDS] @ ev2))
          else (1, w1, ev1 @ [attempt_error attempt exc]))"

definition main :: "'w service \<Rightarrow> pylib \<Rightarrow> env \<Rightarrow> config \<Rightarrow> 'w \<Rightarrow> int \<times> 'w \<times> event list" where
  "main svc lib ev cfg w = main_loop svc lib ev cfg [1..RETRY_COUNT] w"

section \<open>The freeze job\<close>

text \<open>
  What \<^verbatim>\<open>freeze_master_values.py\<close> reads from the process environment:
  \<^verbatim>\<open>COMPETITOR_FREEZE_ONLY_TAB\<close> (stripped), \<^verbatim>\<open>COMPETITOR_FREEZE_LAST_COL\<close> (stripped,
  upper-cased), the row ceiling and the chunk size.
\<close>

record freeze_env =
  freeze_only_tab :: string
  freeze_last_col :: string
  freeze_max_rows :: int
  freeze_chunk_size :: int

definition freeze_column_values ::
  "'w service \<Rightarrow> string \<Rightarrow> int \<Rightarrow> int \<Rightarrow> int \<Rightarrow> int \<Rightarrow> ('w, unit) prog" where
  "freeze_column_values svc spreadsheet_id sheet_id col_index_zero start_row_index end_row_index =
     and_then (py_print (''[INFO] Freeze chunk start: rows ''
                         @ rows_text (start_row_index + 1) end_row_index)) (\<lambda>_.
     and_then (exec_request svc
                 (CopyPasteValues spreadsheet_id sheet_id col_index_zero start_row_index end_row_index))
       (\<lambda>_.
     py_print (''[INFO] Freeze chunk done: rows '' @ rows_text (start_row_index + 1) end_row_index)))"

text \<open>
  The chunk loop of \<^verbatim>\<open>run_freeze\<close> (lines 209-222):
  \<^verbatim>\<open>
  row = 1
  chunk = max(1, chunk_size)
  while row < effective_rows:
      end_row = min(row + chunk, effective_rows)
      freeze_column_values(sheets_service, target_sheet_id, props["sheetId"],
                           prev_col_index - 1, row, end_row)
      print(f"[INFO] Freeze chunk done: {tab_name} rows {row+1}-{end_row}")
      row = end_row
  \<close>
\<close>

function freeze_chunk_loop ::
  "'w service \<Rightarrow> string \<Rightarrow> string \<Rightarrow> int \<Rightarrow> int \<Rightarrow> int \<Rightarrow> int \<Rightarrow> int \<Rightarrow> ('w, unit) prog" where
  "freeze_chunk_loop svc spreadsheet_id tab_name sheet_id col_index_zero chunk_size effective_rows row =
     (if row < effective_rows then
        (let chunk = max 1 chunk_size;
             end_row = min (row + chunk) effective_rows
         in
         and_then (freeze_column_values svc spreadsheet_id sheet_id col_index_zero row end_row) (\<lambda>_.
         and_then (py_print (''[INFO] Freeze chunk done: '' @ tab_name @ '' rows ''
                             @ rows_text (row + 1) end_row)) (\<lambda>_.
         freeze_chunk_loop svc spreadsheet_id tab_name sheet_id col_index_zero chunk_size
           effective_rows end_row)))
      else ret ())"
  by pat_completeness auto
termination
  by (relation "measure (\<lambda>(svc, spreadsheet_id, tab_name, sheet_id, col_index_zero, chunk_size,
                           effective_rows, row). nat (effective_rows - row))")
     auto

declare freeze_chunk_loop.simps [simp del]

text \<open>
  One pass of the loop over the tabs of \<^verbatim>\<open>run_freeze\<close> (lines 186-224).
\<close>

definition freeze_tab_step ::
  "'w service \<Rightarrow> freeze_env \<Rightarrow> config \<Rightarrow> (string \<rightharpoonup> props) \<Rightarrow> (string \<rightharpoonup> string) \<Rightarrow> string \<Rightarrow>
   ('w, unit) prog" where
  "freeze_tab_step svc fe cfg sheet_props meta_map tab_name =
     (case sheet_props tab_name of
        None \<Rightarrow> raise (RuntimeError (''Master tab not found: '' @ tab_name))
      | Some p \<Rightarrow>
          (case meta_map tab_name of
             None \<Rightarrow> raise (RuntimeError (''Master meta missing for tab: '' @ tab_name))
           | Some last_col \<Rightarrow>
               if last_col = [] then
                 raise (RuntimeError (''Master meta missing for tab: '' @ tab_name))
               else
                 (let last_col_index = a1_to_col last_col;
                      prev_col_index = last_col_index - 1
                  in
                  if prev_col_index < 1 then
                    py_print (''[SKIP] Invalid prev column for '' @ tab_name @ '': '' @ last_col)
                  else
                    (let effective_rows =
                           (if freeze_max_rows fe > 0 then min (rowCount p) (freeze_max_rows fe)
                            else rowCount p)
                     in
                     if effective_rows \<le> 1 then
                       py_print (''[SKIP] No data rows to freeze: '' @ tab_name)
                     else
                       (let prev_col_letter = col_to_a1 prev_col_index in
                        and_then (py_print (''[INFO] Freeze start: '' @ tab_name @ '' ('' @ prev_col_letter
                                            @ ''2:'' @ prev_col_letter @ str_int effective_rows @ '')''))
                          (\<lambda>_.
                        and_then (freeze_chunk_loop svc (target_sheet_id cfg) tab_name (sheetId p)
                                    (prev_col_index - 1) (freeze_chunk_size fe) effective_rows 1) (\<lambda>_.
                        py_print (''[SYNC] Freeze completed: '' @ tab_name))))))))"

fun freeze_loop ::
  "'w service \<Rightarrow> freeze_env \<Rightarrow> config \<Rightarrow> (string \<rightharpoonup> props) \<Rightarrow> (string \<rightharpoonup> string) \<Rightarrow> string list \<Rightarrow>
   ('w, unit) prog" where
  "freeze_loop svc fe cfg sheet_props meta_map [] = ret ()"
| "freeze_loop svc fe cfg sheet_props meta_map (tab_name # rest) =
     and_then (freeze_tab_step svc fe cfg sheet_props meta_map tab_name) (\<lambda>_.
     freeze_loop svc fe cfg sheet_props meta_map rest)"

definition get_master_meta_from_rows ::
  "'w service \<Rightarrow> string \<Rightarrow> string \<Rightarrow> (string \<times> int) list \<Rightarrow> ('w, string \<rightharpoonup> string) prog" where
  "get_master_meta_from_rows svc spreadsheet_id meta_sheet meta_rows =
     and_then (py_print (''[INFO] Master meta read start: '' @ meta_sheet)) (\<lambda>_.
     and_then (meta_rows_loop svc spreadsheet_id meta_sheet meta_rows Map.empty) (\<lambda>meta_map.
     and_then (py_print (''[INFO] Master meta read done: '' @ meta_sheet)) (\<lambda>_.
     ret meta_map)))"

text \<open>
  \<^verbatim>\<open>run_freeze\<close> (lines 149-224), from the loaded configuration and credentials on.
\<close>

definition run_freeze :: "'w service \<Rightarrow> freeze_env \<Rightarrow> config \<Rightarrow> ('w, unit) prog" where
  "run_freeze svc fe cfg =
     (if master_meta_rows cfg = [] then
        raise (RuntimeError ''master_meta_rows is required for freeze job'')
      else
        and_then (get_sheet_properties_map svc (target_sheet_id cfg)) (\<lambda>sheet_props.
        let tabs = (if freeze_only_tab fe \<noteq> [] then [freeze_only_tab fe] else master_tabs cfg) in
        and_then
          (if freeze_last_col fe \<noteq> [] then
             (case tabs of
                [tab] \<Rightarrow> ret [tab \<mapsto> freeze_last_col fe]
              | _ \<Rightarrow> raise (RuntimeError
                             ''COMPETITOR_FREEZE_LAST_COL requires COMPETITOR_FREEZE_ONLY_TAB''))
           else if freeze_only_tab fe \<noteq> [] then
             (case map_of (master_meta_rows cfg) (freeze_only_tab fe) of
                None \<Rightarrow> raise (KeyError (freeze_only_tab fe))
              | Some row_idx \<Rightarrow>
                  get_master_meta_from_rows svc (target_sheet_id cfg) (master_meta_sheet cfg)
                    [(freeze_only_tab fe, row_idx)])
           else get_master_meta_from_rows svc (target_sheet_id cfg) (master_meta_sheet cfg)
                  (master_meta_rows cfg)) (\<lambda>meta_map.
        freeze_loop svc fe cfg sheet_props meta_map tabs)))"

text \<open>
  \<^verbatim>\<open>main\<close> of the freeze script (the name \<open>main\<close> is the update script's here):
  \<^verbatim>\<open>
  def main():
      for attempt in range(1, RETRY_COUNT + 1):
          try:
              run_freeze()
              return 0
          except Exception as exc:
              print(f"[ERROR] Attempt {attempt}/{RETRY_COUNT}: {exc}")
              if attempt < RETRY_COUNT:
                  time.sleep(RETRY_DELAY_SECONDS)
                  continue
              return 1
      return 1
  \<close>
\<close>

fun freeze_main_loop ::
  "'w service \<Rightarrow> freeze_env \<Rightarrow> config \<Rightarrow> int list \<Rightarrow> 'w \<Rightarrow> int \<times> 'w \<times> event list" where
  "freeze_main_loop svc fe cfg [] w = (1, w, [])"
| "freeze_main_loop svc fe cfg (attempt # rest) w =
     (case run_freeze svc fe cfg w of
        (Inr u, w1, ev1) \<Rightarrow> (0, w1, ev1)
      | (Inl exc, w1, ev1) \<Rightarrow>
          if attempt < RETRY_COUNT then
            (case freeze_main_loop svc fe cfg rest w1 of
               (code, w2, ev2) \<Rightarrow>
                 (code, w2, ev1 @ [attempt_error attempt exc, Sleep RETRY_DELAY_SECONDS] @ ev2))
          else (1, w1, ev1 @ [attempt_error attempt exc]))"

definition freeze_main :: "'w service \<Rightarrow> freeze_env \<Rightarrow> config \<Rightarrow> 'w \<Rightarrow> int \<times> 'w \<times> event list" where
  "freeze_main svc fe cfg w = freeze_main_loop svc fe cfg [1..RETRY_COUNT] w"

section \<open>Observing a run\<close>

text \<open>
  The three components of what a piece of a script does from a remote state \<open>w\<close>, and
  the requests among its events, in the order they were sent (failed ones included).
\<close>

definition outcome :: "('w, 'a) prog \<Rightarrow> 'w \<Rightarrow> exn + 'a" where
  "outcome m w = fst (m w)"

definition final :: "('w, 'a) prog \<Rightarrow> 'w \<Rightarrow> 'w" where
  "final m w = fst (snd (m w))"

definition emitted :: "('w, 'a) prog \<Rightarrow> 'w \<Rightarrow> event list" where
  "emitted m w = snd (snd (m w))"

fun calls :: "event list \<Rightarrow> request list" where
  "calls [] = []"
| "calls (Call req err # evs) = req # calls evs"
| "calls (Print line # evs) = calls evs"
| "calls (Sleep n # evs) = calls evs"

subsection \<open>Chunks\<close>

text \<open>
  The row ranges \<open>(start_row_num, end_row_num)\<close> the two chunk loops go through, from
  \<open>row\<close> on: the loop of \<^verbatim>\<open>update_master_tab\<close> and the loop of \<^verbatim>\<open>run_freeze\<close> compute
  \<open>chunk\<close>, \<open>chunk_end\<close> and the next \<open>row\<close> in the same way.
\<close>

function chunk_bounds :: "int \<Rightarrow> int \<Rightarrow> int \<Rightarrow> (int \<times> int) list" where
  "chunk_bounds chunk_size data_end_row row =
     (if row < data_end_row then
        (let chunk = max 1 chunk_size;
             chunk_end = min (row + chunk) data_end_row
         in (row + 1, chunk_end) # chunk_bounds chunk_size data_end_row chunk_end)
      else [])"
  by pat_completeness auto
termination
  by (relation "measure (\<lambda>(chunk_size, data_end_row, row). nat (data_end_row - row))") auto

declare chunk_bounds.simps [simp del]

text \<open>\<^verbatim>\<open>effective_rows = min(row_count, max_rows) if max_rows > 0 else row_count\<close>\<close>

definition effective_row_count :: "int \<Rightarrow> int \<Rightarrow> int" where
  "effective_row_count row_count max_rows = (if max_rows > 0 then min row_count max_rows else row_count)"

text \<open>
  The requests of one pass of the chunk loop of \<^verbatim>\<open>update_master_tab\<close> over the rows
  \<open>a\<close> to \<open>b\<close>: the formula read of the previous column, the write into the new column, the
  value read of the previous column, the write of the values back into it. \<open>phase\<close> gives
  their order within a pass. A group of requests belongs to the rows \<open>(a, b)\<close> when it
  starts with the formula read, holds only requests of that pass, and holds them in the
  order of the phases.
\<close>

fun phase :: "request \<Rightarrow> nat" where
  "phase (ValuesGet sid r (Some FORMULA)) = 0"
| "phase (ValuesUpdate sid r USER_ENTERED vs) = 1"
| "phase (ValuesGet sid r (Some UNFORMATTED_VALUE)) = 2"
| "phase (ValuesUpdate sid r RAW vs) = 3"
| "phase req = 4"

fun in_chunk :: "string \<Rightarrow> string \<Rightarrow> string \<Rightarrow> string \<Rightarrow> int \<times> int \<Rightarrow> request \<Rightarrow> bool" where
  "in_chunk sid tab prev new (a, b) (ValuesGet sid' r opt) =
     (sid' = sid \<and> r = Range tab (Span prev a prev b) \<and>
      (opt = Some FORMULA \<or> opt = Some UNFORMATTED_VALUE))"
| "in_chunk sid tab prev new (a, b) (ValuesUpdate sid' r USER_ENTERED vs) =
     (sid' = sid \<and> r = Range tab (Cell new a))"
| "in_chunk sid tab prev new (a, b) (ValuesUpdate sid' r RAW vs) =
     (sid' = sid \<and> r = Range tab (Cell prev a))"
| "in_chunk sid tab prev new (a, b) req = False"

definition chunk_group ::
  "string \<Rightarrow> string \<Rightarrow> string \<Rightarrow> string \<Rightarrow> int \<times> int \<Rightarrow> request list \<Rightarrow> bool" where
  "chunk_group sid tab prev new ab g \<longleftrightarrow>
     g \<noteq> [] \<and> phase (hd g) = 0 \<and> list_all (in_chunk sid tab prev new ab) g \<and>
     sorted_wrt (<) (map phase g)"

fun formula_reads :: "request list \<Rightarrow> range list" where
  "formula_reads [] = []"
| "formula_reads (ValuesGet sid r (Some FORMULA) # reqs) = r # formula_reads reqs"
| "formula_reads (req # reqs) = formula_reads reqs"

text \<open>
  The requests of \<^verbatim>\<open>update_master_tab\<close> before its chunk loop: the structural update when
  the new column lies beyond the declared column count, then the header write.
\<close>

definition setup_calls :: "string \<Rightarrow> string \<Rightarrow> string \<Rightarrow> int \<Rightarrow> int \<Rightarrow> string \<Rightarrow> request list" where
  "setup_calls sid tab monday sheet column_count last_col =
     (if a1_to_col last_col + 1 > column_count
      then [UpdateColumnCount sid sheet (a1_to_col last_col + 1)] else [])
     @ [ValuesUpdate sid (Range tab (Cell (col_to_a1 (a1_to_col last_col + 1)) 1)) RAW [[CellStr monday]]]"


text \<open>The structural update of a tab's column count.\<close>

fun is_structural :: "request \<Rightarrow> bool" where
  "is_structural (UpdateColumnCount sid sheet n) = True"
| "is_structural req = False"

subsection \<open>Exchanges with the remote side\<close>

text \<open>
  What a piece of a script exchanges with the remote side from a remote state: the requests
  it sends, in order, the remote state it leaves, and whether it returned (rather than
  raised).
\<close>

type_synonym 'w exchange = "'w \<Rightarrow> request list \<times> 'w \<times> bool"

definition observed :: "('w, 'a) prog \<Rightarrow> 'w exchange" where
  "observed m w = (calls (emitted m w), final m w, \<not> isl (outcome m w))"

text \<open>
  The append of a column as the specification describes it (section 4.4, steps 3 to 5),
  written as exchanges and without reference to \<^verbatim>\<open>update_master_tab\<close>.
  \<^item> \<open>send\<close>: one request; it succeeds when the remote side answers it.
  \<^item> \<open>read_then_write\<close>: a read, and then, when the read succeeded and returned at least one
    row, the write \<open>wr\<close> of exactly the rows read. The specification does not say what is
    sent when a read returns no rows; the script sends no write then (\<^verbatim>\<open>if formulas:\<close>,
    \<^verbatim>\<open>if values:\<close>), and so does \<open>read_then_write\<close>.
  \<^item> \<open>in_order\<close>: exchanges one after the other, each from the remote state the one before
    left, up to and including the first that fails.
  \<^item> \<open>chunk_exchange\<close>: the pass over the rows \<open>a\<close> to \<open>b\<close>: the previous column's rows are
    read as formulas and written, interpreted as user input, into the new column from row
    \<open>a\<close>; then, when freezing is on, the previous column's rows are read as unformatted
    values and written back raw over the previous column from row \<open>a\<close>.
  \<^item> \<open>append_exchange\<close>: the requests before the loop, then the passes over the chunks in
    the order of \<open>chunk_bounds\<close>.
\<close>

definition send :: "'w service \<Rightarrow> request \<Rightarrow> 'w exchange" where
  "send svc req w =
     (case svc req w of
        (Inl e, w1) \<Rightarrow> ([req], w1, False)
      | (Inr resp, w1) \<Rightarrow> ([req], w1, True))"

definition read_then_write ::
  "'w service \<Rightarrow> request \<Rightarrow> (cell list list \<Rightarrow> request) \<Rightarrow> 'w exchange" where
  "read_then_write svc rd wr w =
     (case svc rd w of
        (Inl e, w1) \<Rightarrow> ([rd], w1, False)
      | (Inr resp, w1) \<Rightarrow>
          if resp_values resp = [] then ([rd], w1, True)
          else (case send svc (wr (resp_values resp)) w1 of
                  (reqs, w2, ok) \<Rightarrow> (rd # reqs, w2, ok)))"

fun in_order :: "'w exchange list \<Rightarrow> 'w exchange" where
  "in_order [] w = ([], w, True)"
| "in_order (x # xs) w =
     (case x w of
        (reqs, w1, ok) \<Rightarrow>
          if ok then (case in_order xs w1 of (reqs2, w2, ok2) \<Rightarrow> (reqs @ reqs2, w2, ok2))
          else (reqs, w1, False))"

definition chunk_exchange ::
  "'w service \<Rightarrow> bool \<Rightarrow> string \<Rightarrow> string \<Rightarrow> string \<Rightarrow> string \<Rightarrow> int \<times> int \<Rightarrow> 'w exchange" where
  "chunk_exchange svc freeze sid tab prev new ab =
     (let rows = Range tab (Span prev (fst ab) prev (snd ab)) in
      in_order
        ([read_then_write svc (ValuesGet sid rows (Some FORMULA))
            (ValuesUpdate sid (Range tab (Cell new (fst ab))) USER_ENTERED)]
         @ (if freeze
            then [read_then_write svc (ValuesGet sid rows (Some UNFORMATTED_VALUE))
                    (ValuesUpdate sid (Range tab (Cell prev (fst ab))) RAW)]
            else [])))"

definition append_exchange ::
  "'w service \<Rightarrow> bool \<Rightarrow> string \<Rightarrow> string \<Rightarrow> string \<Rightarrow> string \<Rightarrow> int \<Rightarrow> int \<Rightarrow> int \<Rightarrow> int \<Rightarrow> 'w exchange" where
  "append_exchange svc freeze monday sid tab last_col sheet column_count chunk_size effective_rows =
     in_order
       (map (send svc) (setup_calls sid tab monday sheet column_count last_col)
        @ map (chunk_exchange svc freeze sid tab (col_to_a1 (a1_to_col last_col))
                 (col_to_a1 (a1_to_col last_col + 1)))
            (chunk_bounds chunk_size effective_rows 1))"

section \<open>Failures of remote calls\<close>

text \<open>
  The failed remote calls among the events of a run. A run propagates its remote failures,
  up to the failures \<open>K\<close> allows it to pass over, when every failed call is one that \<open>K\<close>
  allows, or the last event is a failed call, the run ends with that call's error as it
  is, and every failed call before it is one that \<open>K\<close> allows.
\<close>

fun failed_calls :: "event list \<Rightarrow> (request \<times> remote_error) list" where
  "failed_calls [] = []"
| "failed_calls (Call req (Some e) # evs) = (req, e) # failed_calls evs"
| "failed_calls (ev # evs) = failed_calls evs"

definition quiet_by :: "(request \<Rightarrow> remote_error \<Rightarrow> bool) \<Rightarrow> event list \<Rightarrow> bool" where
  "quiet_by K evs \<longleftrightarrow> list_all (\<lambda>(req, e). K req e) (failed_calls evs)"

definition raised_by :: "(request \<Rightarrow> remote_error \<Rightarrow> bool) \<Rightarrow> exn \<Rightarrow> event list \<Rightarrow> bool" where
  "raised_by K x evs \<longleftrightarrow>
     evs \<noteq> [] \<and> quiet_by K (butlast evs) \<and>
     (case last evs of Call req (Some e) \<Rightarrow> x = Remote e | _ \<Rightarrow> False)"

definition propagates ::
  "(request \<Rightarrow> remote_error \<Rightarrow> bool) \<Rightarrow> exn + 'a \<Rightarrow> event list \<Rightarrow> bool" where
  "propagates K r evs \<longleftrightarrow>
     quiet_by K evs \<or> (case r of Inl x \<Rightarrow> raised_by K x evs | Inr a \<Rightarrow> False)"

definition propagating :: "(request \<Rightarrow> remote_error \<Rightarrow> bool) \<Rightarrow> ('w, 'a) prog \<Rightarrow> bool" where
  "propagating K m \<longleftrightarrow> (\<forall>w. propagates K (outcome m w) (emitted m w))"

subsection \<open>Requests by the sheet they write\<close>

text \<open>
  A request that writes cell values of the sheet named \<open>sheet\<close>; a piece of a script that
  sends only requests with the property \<open>P\<close>.
\<close>

fun writes_to :: "string \<Rightarrow> request \<Rightarrow> bool" where
  "writes_to sheet (ValuesUpdate sid r opt vs) = (range_sheet r = sheet)"
| "writes_to sheet (ValuesClear sid r) = (range_sheet r = sheet)"
| "writes_to sheet req = False"

definition sends_only :: "(request \<Rightarrow> bool) \<Rightarrow> ('w, 'a) prog \<Rightarrow> bool" where
  "sends_only P m \<longleftrightarrow> (\<forall>w. list_all P (calls (emitted m w)))"

subsection \<open>The failure that is passed over\<close>




section \<open>Delays between attempts\<close>

text \<open>The delays of the \<^verbatim>\<open>time.sleep\<close> calls among the events of a run, in seconds.\<close>

fun sleeps :: "event list \<Rightarrow> nat list" where
  "sleeps [] = []"
| "sleeps (Sleep n # evs) = n # sleeps evs"
| "sleeps (ev # evs) = sleeps evs"

section \<open>An order on the sort keys\<close>

text \<open>
  A total order on the sort keys that agrees with \<^verbatim>\<open><\<close> wherever Python can compare two
  keys: values of one kind are ordered by their instants (the naive values are put below
  the aware ones, which Python does not compare), and the key tuples lexicographically.
\<close>

definition dt_rank :: "datetime \<Rightarrow> nat \<times> int" where
  "dt_rank t = (if is_naive t then 0 else 1, instant t)"

fun key_rank :: "sort_key \<Rightarrow> (nat \<times> int) \<times> (nat \<times> int) \<times> (nat \<times> int)" where
  "key_rank (a1, a2, a3) = (dt_rank a1, dt_rank a2, dt_rank a3)"

section \<open>Remote services used in the examples\<close>

text \<open>
  A remote side that answers every request with one row holding one formula cell, and
  counts the requests it served.
\<close>

definition grid_ok :: "nat service" where
  "grid_ok req n = (Inr \<lparr>resp_values = [[CellStr ''=B2'']], resp_sheets = [], resp_files = []\<rparr>, Suc n)"

text \<open>
  A remote side that fails the requests \<open>fail\<close> names, answers the others with \<open>answer\<close>,
  and counts the requests it was sent.
\<close>

definition scripted :: "(request \<Rightarrow> remote_error option) \<Rightarrow> (request \<Rightarrow> response) \<Rightarrow> nat service" where
  "scripted fail answer req n =
     (case fail req of Some e \<Rightarrow> (Inl e, Suc n) | None \<Rightarrow> (Inr (answer req), Suc n))"

definition values_response :: "cell list list \<Rightarrow> response" where
  "values_response vs = \<lparr>resp_values = vs, resp_sheets = [], resp_files = []\<rparr>"

text \<open>
  A shared drive with one source spreadsheet, and a ledger spreadsheet with a staging tab,
  the ledger tab "Prices" (50 rows, 10 columns) and the metadata sheet; the metadata cell
  of "Prices" holds "J".
\<close>

definition demo_files :: "drive_file list" where
  "demo_files = [\<lparr>f_id = ''file1'', f_name = ''comp_241202'', modifiedTime = None, createdTime = None\<rparr>]"

definition demo_sheets :: "sheet_json list" where
  "demo_sheets =
     [\<lparr>p_title = Some ''Staging'', p_sheetId = Some 1, p_rowCount = Some 100, p_columnCount = Some 26\<rparr>,
      \<lparr>p_title = Some ''Prices'', p_sheetId = Some 7, p_rowCount = Some 50, p_columnCount = Some 10\<rparr>,
      \<lparr>p_title = Some ''Master_Meta'', p_sheetId = Some 9, p_rowCount = Some 10, p_columnCount = Some 2\<rparr>]"

fun demo_answer :: "request \<Rightarrow> response" where
  "demo_answer (DriveListSpreadsheets d f) = \<lparr>resp_values = [], resp_sheets = [], resp_files = demo_files\<rparr>"
| "demo_answer (SpreadsheetsGet sid) = \<lparr>resp_values = [], resp_sheets = demo_sheets, resp_files = []\<rparr>"
| "demo_answer (ValuesGet sid r (Some UNFORMATTED_VALUE)) = values_response [[CellStr ''J'']]"
| "demo_answer req = values_response [[CellStr ''=B2'']]"

definition demo_config :: config where
  "demo_config =
     \<lparr>drive_folder_id = ''drive'', target_sheet_id = ''S'', source_sheet_name = ''Sheet1'',
      source_range = ''A1:Z'', target_range = ''A1:Z'',
      mappings = [\<lparr>prefix = ''comp_'', target_tab = ''Staging'', exclude_prefixes = []\<rparr>],
      master_tabs = [''Prices''], master_meta_sheet = ''Master_Meta'', master_meta_range = ''A1:B10'',
      master_meta_rows = [(''Prices'', 2)], master_meta_override = []\<rparr>"

definition demo_env :: env where
  "demo_env =
     \<lparr>run_mode = ''both'', master_only_tab = [], master_freeze_values = True,
      master_max_rows = 5000, master_chunk_size = 20, week_monday = ''2024-12-02''\<rparr>"

definition demo_props :: props where
  "demo_props = \<lparr>sheetId = 7, rowCount = 50, columnCount = 10\<rparr>"

text \<open>
  An instance of the library functions: \<^verbatim>\<open>strftime('%Y-%m-%d %H:%M:%S')\<close>, and
  \<^verbatim>\<open>fromisoformat\<close> and \<^verbatim>\<open>isoformat\<close> on the two timestamps the examples use.
\<close>

definition pad2 :: "int \<Rightarrow> string" where
  "pad2 n = (if n < 10 then ''0'' @ str_int n else str_int n)"

definition sample_strftime :: "datetime \<Rightarrow> string" where
  "sample_strftime t =
     str_int (dt_year t) @ ''-'' @ pad2 (dt_month t) @ ''-'' @ pad2 (dt_day t) @ '' ''
     @ pad2 (dt_hour t) @ '':'' @ pad2 (dt_minute t) @ '':'' @ pad2 (dt_second t)"

definition utc_midnight :: "int \<Rightarrow> int \<Rightarrow> int \<Rightarrow> datetime" where
  "utc_midnight y m d =
     \<lparr>dt_year = y, dt_month = m, dt_day = d, dt_hour = 0, dt_minute = 0, dt_second = 0,
      dt_microsecond = 0, dt_utcoffset = Some 0\<rparr>"

definition sample_fromisoformat :: "string \<Rightarrow> exn + datetime" where
  "sample_fromisoformat s =
     (if s = ''2024-12-02T00:00:00+00:00'' then Inr (utc_midnight 2024 12 2)
      else if s = ''2024-12-01T00:00:00+00:00'' then Inr (utc_midnight 2024 12 1)
      else Inl (ValueError (''Invalid isoformat string: '' @ s)))"

definition sample_isoformat :: "datetime \<Rightarrow> string" where
  "sample_isoformat t =
     str_int (dt_year t) @ ''-'' @ pad2 (dt_month t) @ ''-'' @ pad2 (dt_day t) @ ''T''
     @ pad2 (dt_hour t) @ '':'' @ pad2 (dt_minute t) @ '':'' @ pad2 (dt_second t)
     @ (if dt_utcoffset t = Some 0 then ''+00:00'' else [])"

definition sample_lib :: pylib where
  "sample_lib = \<lparr>fromisoformat = sample_fromisoformat, isoformat = sample_isoformat,
     strftime = sample_strftime\<rparr>"

text \<open>The remote side of the examples, with a source spreadsheet that has no rows.\<close>

fun empty_source_answer :: "request \<Rightarrow> response" where
  "empty_source_answer (ValuesGet sid r None) = values_response []"
| "empty_source_answer req = demo_answer req"



text \<open>
  The remote side of the examples with no failure, and a configuration that tracks a
  ledger tab "Ledger" the spreadsheet does not have.
\<close>

definition demo_grid :: "nat service" where
  "demo_grid = scripted (\<lambda>req. None) demo_answer"

definition missing_tab_config :: config where
  "missing_tab_config = demo_config\<lparr>master_tabs := [''Ledger''], master_meta_rows := [(''Ledger'', 2)]\<rparr>"

definition demo_freeze_env :: freeze_env where
  "demo_freeze_env = \<lparr>freeze_only_tab = [], freeze_last_col = [], freeze_max_rows = 5000,
     freeze_chunk_size = 2000\<rparr>"

text \<open>Candidate files for the selector: a name, and a modified time or none.\<close>

definition candidate :: "string \<Rightarrow> string option \<Rightarrow> drive_file" where
  "candidate name modified = \<lparr>f_id = name, f_name = name, modifiedTime = modified, createdTime = None\<rparr>"

text \<open>
  A remote side for a ledger tab whose previous column holds one formula: a formula read
  returns the formula, a value read returns its value, every other request is answered
  with no rows.
\<close>

fun ledger_answer :: "request \<Rightarrow> response" where
  "ledger_answer (ValuesGet sid r (Some FORMULA)) = values_response [[CellStr ''=B2*2'']]"
| "ledger_answer (ValuesGet sid r (Some UNFORMATTED_VALUE)) = values_response [[CellInt 84]]"
| "ledger_answer req = values_response []"

definition ledger_grid :: "nat service" where
  "ledger_grid = scripted (\<lambda>req. None) ledger_answer"

section \<open>Properties of the column codec\<close>

declare col_to_a1_loop.simps [simp del]

lemma col_to_a1_loop_nonpos: "index \<le> 0 \<Longrightarrow> col_to_a1_loop index letters = letters"
  by (subst col_to_a1_loop.simps) simp

lemma col_to_a1_loop_pos:
  "0 < index \<Longrightarrow>
   col_to_a1_loop index letters =
     col_to_a1_loop ((index - 1) div 26) (letters @ [char_of (65 + (index - 1) mod 26)])"
  by (subst col_to_a1_loop.simps) simp

lemma col_to_a1_loop_acc: "col_to_a1_loop index letters = letters @ col_to_a1_loop index []"
proof (induction "nat index" arbitrary: index letters rule: less_induct)
  case less
  show ?case
  proof (cases "0 < index")
    case True
    define q where "q = (index - 1) div 26"
    define c where "c = (char_of (65 + (index - 1) mod 26) :: char)"
    have lt: "nat q < nat index"
      using True by (simp add: q_def)
    have "col_to_a1_loop index letters = col_to_a1_loop q (letters @ [c])"
      using True by (simp add: col_to_a1_loop_pos q_def c_def)
    also have "\<dots> = (letters @ [c]) @ col_to_a1_loop q []"
      by (rule less [OF lt])
    also have "\<dots> = letters @ ([c] @ col_to_a1_loop q [])"
      by simp
    also have "[c] @ col_to_a1_loop q [] = col_to_a1_loop q [c]"
      by (rule less [OF lt, symmetric])
    also have "col_to_a1_loop q [c] = col_to_a1_loop index []"
      using True by (simp add: col_to_a1_loop_pos q_def c_def)
    finally show ?thesis .
  next
    case False
    then show ?thesis by (simp add: col_to_a1_loop_nonpos)
  qed
qed

lemma a1_to_col_loop_append:
  "list_all is_A_to_Z xs \<Longrightarrow>
   a1_to_col_loop (xs @ ys) result = a1_to_col_loop ys (a1_to_col_loop xs result)"
  by (induction xs arbitrary: result) simp_all

lemma letter_code:
  assumes "0 \<le> m" and "m < (26 :: int)"
  shows "(of_char (char_of (65 + m) :: char) :: int) = 65 + m"
    and "is_A_to_Z (char_of (65 + m))"
proof -
  show a: "(of_char (char_of (65 + m) :: char) :: int) = 65 + m"
    using assms by simp
  have "int (of_char (char_of (65 + m) :: char)) = 65 + m"
    using a by (simp only: of_nat_of_char)
  then show "is_A_to_Z (char_of (65 + m))"
    using assms unfolding is_A_to_Z_def by linarith
qed

lemma upper_letters: "list_all is_A_to_Z xs \<Longrightarrow> upper xs = xs"
  by (induction xs) (auto simp: upper_def upper_char_def is_A_to_Z_def)

lemma col_to_a1_loop_letters:
  "list_all is_A_to_Z (col_to_a1_loop index []) \<and>
   (0 \<le> index \<longrightarrow> a1_to_col_loop (rev (col_to_a1_loop index [])) 0 = index)"
proof (induction "nat index" arbitrary: index rule: less_induct)
  case less
  show ?case
  proof (cases "0 < index")
    case True
    define q where "q = (index - 1) div 26"
    define m where "m = (index - 1) mod 26"
    define c where "c = (char_of (65 + m) :: char)"
    have lt: "nat q < nat index" and q0: "0 \<le> q"
      using True by (simp_all add: q_def)
    have m: "0 \<le> m" "m < 26"
      by (simp_all add: m_def)
    have unfold: "col_to_a1_loop index [] = [c] @ col_to_a1_loop q []"
      using True col_to_a1_loop_acc [of q "[c]"]
      by (simp add: col_to_a1_loop_pos q_def c_def m_def)
    have IH: "list_all is_A_to_Z (col_to_a1_loop q [])"
      "a1_to_col_loop (rev (col_to_a1_loop q [])) 0 = q"
      using less [OF lt] q0 by simp_all
    have cz: "is_A_to_Z c" and cv: "(of_char c :: int) = 65 + m"
      using letter_code [OF m] by (simp_all add: c_def)
    have "a1_to_col_loop (rev (col_to_a1_loop index [])) 0 =
          a1_to_col_loop [c] (a1_to_col_loop (rev (col_to_a1_loop q [])) 0)"
      using IH(1) by (simp add: unfold a1_to_col_loop_append)
    also have "\<dots> = q * 26 + (1 + m)"
      using cz cv IH(2) by simp
    also have "\<dots> = index"
      by (simp add: q_def m_def)
    finally show ?thesis
      using IH(1) cz by (simp add: unfold)
  next
    case False
    then show ?thesis by (simp add: col_to_a1_loop_nonpos)
  qed
qed

text \<open>
  C7. Round trip of the column codec: for every index \<open>n \<ge> 1\<close>, \<open>a1_to_col (col_to_a1 n) = n\<close>
  (labelToIndex after indexToLabel is the identity), and for every index \<open>n \<le> 0\<close>,
  \<open>col_to_a1 n\<close> is the empty label.
\<close>

theorem column_codec_roundtrip:
  "(1 \<le> n \<longrightarrow> a1_to_col (col_to_a1 n) = n) \<and> (n \<le> 0 \<longrightarrow> col_to_a1 n = [])"
proof (intro conjI impI)
  assume n: "1 \<le> n"
  have "list_all is_A_to_Z (rev (col_to_a1_loop n []))"
    using col_to_a1_loop_letters [of n] by simp
  then have "upper (col_to_a1 n) = col_to_a1 n"
    unfolding col_to_a1_def by (rule upper_letters)
  then show "a1_to_col (col_to_a1 n) = n"
    using col_to_a1_loop_letters [of n] n by (simp add: a1_to_col_def col_to_a1_def)
next
  assume "n \<le> 0"
  then show "col_to_a1 n = []"
    by (simp add: col_to_a1_def col_to_a1_loop_nonpos)
qed

theorem column_codec_roundtrip_witness:
  "(1 :: int) \<le> 27 \<and> a1_to_col (col_to_a1 27) = 27 \<and> col_to_a1 27 = ''AA'' \<and>
   (0 :: int) \<le> 0 \<and> col_to_a1 0 = []"
proof -
  have label: "col_to_a1 27 = ''AA''"
    by code_simp
  show ?thesis
    using column_codec_roundtrip [of 27] column_codec_roundtrip [of 0] label by simp
qed

section \<open>Composition of runs\<close>

lemma prog_cases: "m w = (outcome m w, final m w, emitted m w)"
  by (simp add: outcome_def final_def emitted_def)

lemma outcome_ret [simp]: "outcome (ret a) w = Inr a"
  and final_ret [simp]: "final (ret a) w = w"
  and emitted_ret [simp]: "emitted (ret a) w = []"
  by (simp_all add: outcome_def final_def emitted_def ret_def)

lemma outcome_raise [simp]: "outcome (raise e) w = Inl e"
  and final_raise [simp]: "final (raise e) w = w"
  and emitted_raise [simp]: "emitted (raise e) w = []"
  by (simp_all add: outcome_def final_def emitted_def raise_def)

lemma outcome_print [simp]: "outcome (py_print l) w = Inr ()"
  and final_print [simp]: "final (py_print l) w = w"
  and emitted_print [simp]: "emitted (py_print l) w = [Print l]"
  by (simp_all add: outcome_def final_def emitted_def py_print_def)

lemma outcome_and_then:
  "outcome (and_then m f) w =
     (case outcome m w of Inl e \<Rightarrow> Inl e | Inr a \<Rightarrow> outcome (f a) (final m w))"
  by (simp add: outcome_def final_def and_then_def split: prod.splits sum.splits)

lemma final_and_then:
  "final (and_then m f) w =
     (case outcome m w of Inl e \<Rightarrow> final m w | Inr a \<Rightarrow> final (f a) (final m w))"
  by (simp add: outcome_def final_def and_then_def split: prod.splits sum.splits)

lemma emitted_and_then:
  "emitted (and_then m f) w =
     (case outcome m w of
        Inl e \<Rightarrow> emitted m w
      | Inr a \<Rightarrow> emitted m w @ emitted (f a) (final m w))"
  by (simp add: outcome_def final_def emitted_def and_then_def split: prod.splits sum.splits)

lemma calls_append [simp]: "calls (xs @ ys) = calls xs @ calls ys"
  by (induction xs rule: calls.induct) simp_all

lemma exec_request_calls [simp]: "calls (emitted (exec_request svc req) w) = [req]"
  by (simp add: emitted_def exec_request_def split: prod.splits sum.splits)

section \<open>The chunk loops\<close>

lemma chunk_bounds_rows:
  "1 \<le> row \<Longrightarrow> concat (map (\<lambda>(a, b). [a..b]) (chunk_bounds chunk_size data_end_row row))
     = [row + 1..data_end_row]"
proof (induction chunk_size data_end_row row rule: chunk_bounds.induct)
  case (1 chunk_size data_end_row row)
  show ?case
  proof (cases "row < data_end_row")
    case True
    define chunk_end where "chunk_end = min (row + max 1 chunk_size) data_end_row"
    have ce: "row < chunk_end" "chunk_end \<le> data_end_row"
      using True by (auto simp: chunk_end_def)
    have IH: "concat (map (\<lambda>(a, b). [a..b]) (chunk_bounds chunk_size data_end_row chunk_end))
       = [chunk_end + 1..data_end_row]"
      using "1.IH" [OF True refl, of chunk_end] "1.prems" ce by (simp add: chunk_end_def)
    have "[row + 1..data_end_row] = [row + 1..chunk_end] @ [chunk_end + 1..data_end_row]"
      using ce upto_split2 [of "row + 1" chunk_end data_end_row] by simp
    then show ?thesis
      using True IH by (subst chunk_bounds.simps) (simp add: Let_def chunk_end_def)
  next
    case False
    then show ?thesis by (subst chunk_bounds.simps) simp
  qed
qed

lemma master_copy_chunk_group:
  "chunk_group sid tab prev new (a, b)
     (calls (emitted (master_copy_chunk svc freeze sid tab prev new idx a b) w))"
  unfolding master_copy_chunk_def chunk_group_def
  by (simp add: Let_def emitted_and_then outcome_and_then final_and_then split: sum.splits)

lemma master_chunk_loop_groups:
  "\<exists>gs. calls (emitted (master_chunk_loop svc freeze sid tab prev new c n row idx) w) = concat gs \<and>
        list_all2 (chunk_group sid tab prev new) (take (length gs) (chunk_bounds c n row)) gs \<and>
        (outcome (master_chunk_loop svc freeze sid tab prev new c n row idx) w = Inr () \<longrightarrow>
           length gs = length (chunk_bounds c n row))"
proof (induction svc freeze sid tab prev new c n row idx arbitrary: w rule: master_chunk_loop.induct)
  case (1 svc freeze sid tab prev new c n row idx)
  show ?case
  proof (cases "row < n")
    case False
    then show ?thesis
      by (subst (1 2) master_chunk_loop.simps, subst (1 2) chunk_bounds.simps) simp
  next
    case True
    define ce where "ce = min (row + max 1 c) n"
    define body where "body = master_copy_chunk svc freeze sid tab prev new idx (row + 1) ce"
    define g where "g = calls (emitted body w)"
    have loop: "master_chunk_loop svc freeze sid tab prev new c n row idx =
        and_then body (\<lambda>_. master_chunk_loop svc freeze sid tab prev new c n ce (idx + 1))"
      using True by (subst master_chunk_loop.simps) (simp add: Let_def ce_def body_def)
    have bounds: "chunk_bounds c n row = (row + 1, ce) # chunk_bounds c n ce"
      using True by (subst chunk_bounds.simps) (simp add: Let_def ce_def)
    have grp: "chunk_group sid tab prev new (row + 1, ce) g"
      unfolding g_def body_def by (rule master_copy_chunk_group)
    show ?thesis
    proof (cases "outcome body w")
      case (Inl e)
      have "calls (emitted (master_chunk_loop svc freeze sid tab prev new c n row idx) w) = concat [g]"
        using Inl by (simp add: loop emitted_and_then g_def)
      moreover have "list_all2 (chunk_group sid tab prev new) (take (length [g]) (chunk_bounds c n row)) [g]"
        using grp by (simp add: bounds)
      moreover have "outcome (master_chunk_loop svc freeze sid tab prev new c n row idx) w \<noteq> Inr ()"
        using Inl by (simp add: loop outcome_and_then)
      ultimately show ?thesis by blast
    next
      case (Inr u)
      obtain gs where gs:
        "calls (emitted (master_chunk_loop svc freeze sid tab prev new c n ce (idx + 1)) (final body w))
           = concat gs"
        "list_all2 (chunk_group sid tab prev new) (take (length gs) (chunk_bounds c n ce)) gs"
        "outcome (master_chunk_loop svc freeze sid tab prev new c n ce (idx + 1)) (final body w) = Inr ()
           \<longrightarrow> length gs = length (chunk_bounds c n ce)"
        using "1.IH" [OF True refl refl refl refl, of "final body w"]
        unfolding ce_def by blast
      have "calls (emitted (master_chunk_loop svc freeze sid tab prev new c n row idx) w) = concat (g # gs)"
        using Inr gs(1) by (simp add: loop emitted_and_then g_def)
      moreover have "list_all2 (chunk_group sid tab prev new)
          (take (length (g # gs)) (chunk_bounds c n row)) (g # gs)"
        using grp gs(2) by (simp add: bounds)
      moreover have "outcome (master_chunk_loop svc freeze sid tab prev new c n row idx) w = Inr () \<longrightarrow>
          length (g # gs) = length (chunk_bounds c n row)"
        using Inr gs(3) by (simp add: loop outcome_and_then bounds)
      ultimately show ?thesis by blast
    qed
  qed
qed

lemma update_master_tab_calls:
  fixes svc :: "'w service" and w :: 'w
    and freeze monday sid tab last_col sheet row_count column_count max_rows chunk_size
  assumes rows: "1 < effective_row_count row_count max_rows"
  defines "U \<equiv> update_master_tab svc freeze monday sid tab last_col sheet row_count column_count
                  max_rows chunk_size"
    and "pre \<equiv> setup_calls sid tab monday sheet column_count last_col"
    and "bounds \<equiv> chunk_bounds chunk_size (effective_row_count row_count max_rows) 1"
    and "prev \<equiv> col_to_a1 (a1_to_col last_col)"
    and "new \<equiv> col_to_a1 (a1_to_col last_col + 1)"
  shows "\<exists>k gs. calls (emitted U w) = take k pre @ concat gs \<and>
           1 \<le> k \<and> k \<le> length pre \<and> (k < length pre \<longrightarrow> gs = []) \<and>
           list_all2 (chunk_group sid tab prev new) (take (length gs) bounds) gs \<and>
           (\<forall>r. outcome U w = Inr r \<longrightarrow> k = length pre \<and> length gs = length bounds \<and> r = new)"
proof -
  define n where "n = effective_row_count row_count max_rows"
  define idx where "idx = a1_to_col last_col + 1"
  define S :: "('w, unit) prog" where "S =
     (if idx > column_count then
        and_then (py_print (''[INFO] Master tab expand columns: '' @ tab @ '' (''
                            @ str_int column_count @ '' -> '' @ str_int idx @ '')'')) (\<lambda>_.
        and_then (exec_request svc (UpdateColumnCount sid sheet idx)) (\<lambda>_. ret ()))
      else ret ())"
  define hdr where "hdr = ValuesUpdate sid (Range tab (Cell new 1)) RAW [[CellStr monday]]"
  define L where "L = master_chunk_loop svc freeze sid tab prev new chunk_size n 1 1"
  have U_eq: "U =
     and_then (py_print (''[INFO] Master tab start: '' @ tab)) (\<lambda>_.
     and_then S (\<lambda>_.
     and_then (py_print (''[INFO] Master tab header update: '' @ tab)) (\<lambda>_.
     and_then (exec_request svc hdr) (\<lambda>_.
     and_then (py_print (''[INFO] Master tab chunked copy start: '' @ tab @ '' (rows: ''
                         @ str_int n @ '', chunk: '' @ str_int (max 1 chunk_size) @ '')'')) (\<lambda>_.
     and_then L (\<lambda>_.
     and_then (py_print (''[INFO] Master tab chunked copy done: '' @ tab)) (\<lambda>_.
     and_then (py_print (''[SYNC] Master tab updated: '' @ tab @ '' -> '' @ monday)) (\<lambda>_.
     ret new))))))))"
    using rows
    unfolding U_def update_master_tab_def S_def hdr_def L_def n_def idx_def new_def prev_def
      effective_row_count_def
    by (simp add: Let_def)
  have pre_eq: "pre = (if idx > column_count then [UpdateColumnCount sid sheet idx] else []) @ [hdr]"
    by (simp add: pre_def setup_calls_def idx_def hdr_def new_def)
  have S_calls: "calls (emitted S w) = (if idx > column_count then [UpdateColumnCount sid sheet idx] else [])"
    by (simp add: S_def emitted_and_then split: sum.splits)
  show ?thesis
  proof (cases "outcome S w")
    case (Inl e)
    then have big: "idx > column_count"
      by (auto simp: S_def split: if_splits)
    have "calls (emitted U w) = take 1 pre @ concat []"
      using Inl big by (simp add: U_eq emitted_and_then outcome_and_then final_and_then S_calls pre_eq)
    moreover have "outcome U w = Inl e"
      using Inl by (simp add: U_eq outcome_and_then final_and_then)
    moreover have "1 < length pre"
      using big by (simp add: pre_eq)
    ultimately show ?thesis
      by (intro exI [of _ 1] exI [of _ "[]"]) simp
  next
    case S_ok: (Inr u)
    define w1 where "w1 = final S w"
    show ?thesis
    proof (cases "outcome (exec_request svc hdr) w1")
      case (Inl e)
      have "calls (emitted U w) = take (length pre) pre @ concat []"
        using Inl S_ok
        by (simp add: U_eq emitted_and_then outcome_and_then final_and_then S_calls pre_eq w1_def)
      moreover have "outcome U w = Inl e"
        using Inl S_ok by (simp add: U_eq outcome_and_then final_and_then w1_def)
      moreover have "1 \<le> length pre"
        by (simp add: pre_eq)
      ultimately show ?thesis
        by (intro exI [of _ "length pre"] exI [of _ "[]"]) simp
    next
      case H_ok: (Inr resp)
      define w2 where "w2 = final (exec_request svc hdr) w1"
      obtain gs where gs:
        "calls (emitted L w2) = concat gs"
        "list_all2 (chunk_group sid tab prev new) (take (length gs) (chunk_bounds chunk_size n 1)) gs"
        "outcome L w2 = Inr () \<longrightarrow> length gs = length (chunk_bounds chunk_size n 1)"
        using master_chunk_loop_groups [of svc freeze sid tab prev new chunk_size n 1 1 w2]
        unfolding L_def by blast
      have c: "calls (emitted U w) = take (length pre) pre @ concat gs"
        using H_ok S_ok gs(1)
        by (simp add: U_eq emitted_and_then outcome_and_then final_and_then S_calls pre_eq
            w1_def w2_def split: sum.splits)
      have o: "outcome U w = (case outcome L w2 of Inl e \<Rightarrow> Inl e | Inr u \<Rightarrow> Inr new)"
        using H_ok S_ok
        by (simp add: U_eq outcome_and_then final_and_then w1_def w2_def split: sum.splits)
      have "\<forall>r. outcome U w = Inr r \<longrightarrow> length gs = length bounds \<and> r = new"
        using gs(3) by (auto simp: o bounds_def n_def split: sum.splits)
      moreover have "1 \<le> length pre"
        by (simp add: pre_eq)
      ultimately show ?thesis
        using c gs(2)
        by (intro exI [of _ "length pre"] exI [of _ gs]) (simp add: bounds_def n_def)
    qed
  qed
qed



lemma formula_reads_append [simp]: "formula_reads (xs @ ys) = formula_reads xs @ formula_reads ys"
  by (induction xs rule: formula_reads.induct) simp_all

lemma formula_reads_later: "list_all (\<lambda>req. 0 < phase req) reqs \<Longrightarrow> formula_reads reqs = []"
  by (induction reqs rule: formula_reads.induct) simp_all

lemma chunk_group_formula_reads:
  assumes "chunk_group sid tab prev new (a, b) g"
  shows "formula_reads g = [Range tab (Span prev a prev b)]"
proof -
  obtain x xs where g: "g = x # xs"
    using assms by (cases g) (auto simp: chunk_group_def)
  have x0: "phase x = 0" and xin: "in_chunk sid tab prev new (a, b) x"
    and later: "list_all (\<lambda>req. 0 < phase req) xs"
    using assms by (auto simp: chunk_group_def g list_all_iff)
  have "x = ValuesGet sid (Range tab (Span prev a prev b)) (Some FORMULA)"
    using x0 xin by (cases "(sid, tab, prev, new, (a, b), x)" rule: in_chunk.cases) auto
  then show ?thesis
    using formula_reads_later [OF later] by (simp add: g)
qed

lemma groups_formula_reads:
  "list_all2 (chunk_group sid tab prev new) bs gs \<Longrightarrow>
   formula_reads (concat gs) = map (\<lambda>(a, b). Range tab (Span prev a prev b)) bs"
  by (induction bs gs rule: list_all2_induct) (auto simp: chunk_group_formula_reads)








lemma grid_ok_exec:
  "outcome (exec_request grid_ok req) n =
     Inr \<lparr>resp_values = [[CellStr ''=B2'']], resp_sheets = [], resp_files = []\<rparr>"
  "final (exec_request grid_ok req) n = Suc n"
  "emitted (exec_request grid_ok req) n = [Call req None]"
  by (simp_all add: outcome_def final_def emitted_def exec_request_def grid_ok_def)


section \<open>The append as a sequence of exchanges\<close>

lemma observed_exec_request: "observed (exec_request svc req) = send svc req"
  by (rule ext) (simp add: observed_def send_def exec_request_def outcome_def final_def emitted_def
      split: prod.splits sum.splits)

lemma observed_and_then:
  "observed (and_then m f) w =
     (if isl (outcome m w) then (calls (emitted m w), final m w, False)
      else (case observed (f (projr (outcome m w))) (final m w) of
              (reqs, w2, ok) \<Rightarrow> (calls (emitted m w) @ reqs, w2, ok)))"
  by (simp add: observed_def outcome_and_then final_and_then emitted_and_then
      split: sum.splits prod.splits)

lemma observed_seq:
  "observed (and_then m (\<lambda>_. k)) = in_order [observed m, observed k]"
  by (rule ext) (simp add: observed_and_then, simp add: observed_def split: prod.splits)

lemma observed_print_then: "observed (and_then (py_print l) (\<lambda>_. k)) = observed k"
  by (rule ext) (simp add: observed_and_then split: prod.splits)

lemma observed_ret: "observed (ret a) = in_order []"
  by (rule ext) (simp add: observed_def)

lemma observed_print: "observed (py_print l) = in_order []"
  by (rule ext) (simp add: observed_def)

lemma in_order_append:
  "in_order (xs @ ys) w =
     (case in_order xs w of
        (reqs, w1, ok) \<Rightarrow>
          if ok then (case in_order ys w1 of (reqs2, w2, ok2) \<Rightarrow> (reqs @ reqs2, w2, ok2))
          else (reqs, w1, False))"
  by (induction xs arbitrary: w) (auto split: prod.splits)

lemma in_order_nested:
  "in_order (in_order xs # ys) = in_order (xs @ ys)"
  "in_order (x # in_order xs # ys) = in_order (x # xs @ ys)"
  by (rule ext, simp add: in_order_append split: prod.splits)+

lemma observed_read_then_write_last:
  "observed
     (and_then (exec_request svc rd) (\<lambda>resp.
      and_then (py_print l) (\<lambda>_.
      if resp_values resp \<noteq> [] then
        and_then (exec_request svc (wr (resp_values resp))) (\<lambda>_. ret ())
      else ret ())))
   = read_then_write svc rd wr"
  unfolding observed_def read_then_write_def send_def outcome_def final_def emitted_def
    and_then_def exec_request_def py_print_def ret_def
  by (rule ext) (simp split: prod.splits sum.splits)

lemma observed_read_then_write:
  "observed
     (and_then (exec_request svc rd) (\<lambda>resp.
      and_then (py_print l) (\<lambda>_.
      and_then
        (if resp_values resp \<noteq> [] then
           and_then (exec_request svc (wr (resp_values resp))) (\<lambda>_. ret ())
         else ret ()) (\<lambda>_. k))))
   = in_order [read_then_write svc rd wr, observed k]"
proof -
  have "and_then (exec_request svc rd) (\<lambda>resp.
      and_then (py_print l) (\<lambda>_.
      and_then
        (if resp_values resp \<noteq> [] then
           and_then (exec_request svc (wr (resp_values resp))) (\<lambda>_. ret ())
         else ret ()) (\<lambda>_. k)))
    = and_then (and_then (exec_request svc rd) (\<lambda>resp.
      and_then (py_print l) (\<lambda>_.
      if resp_values resp \<noteq> [] then
        and_then (exec_request svc (wr (resp_values resp))) (\<lambda>_. ret ())
      else ret ()))) (\<lambda>_. k)"
    by (rule ext) (simp add: and_then_def split: prod.splits sum.splits)
  then show ?thesis
    by (simp only: observed_seq observed_read_then_write_last)
qed

lemma master_copy_chunk_exchange:
  "observed (master_copy_chunk svc freeze sid tab prev new idx a b)
     = chunk_exchange svc freeze sid tab prev new (a, b)"
proof (cases freeze)
  case True
  then show ?thesis
    unfolding master_copy_chunk_def chunk_exchange_def Let_def
    by (simp only: observed_print_then if_True fst_conv snd_conv
        observed_read_then_write [where wr = "ValuesUpdate sid (Range tab (Cell new a)) USER_ENTERED"]
        observed_seq observed_print in_order_nested append.simps
        observed_read_then_write_last [where wr = "ValuesUpdate sid (Range tab (Cell prev a)) RAW"])
next
  case False
  then show ?thesis
    unfolding master_copy_chunk_def chunk_exchange_def Let_def
    by (simp only: observed_print_then if_False fst_conv snd_conv
        observed_read_then_write [where wr = "ValuesUpdate sid (Range tab (Cell new a)) USER_ENTERED"]
        observed_seq observed_print observed_ret in_order_nested append.simps)
qed

lemma master_chunk_loop_exchange:
  "observed (master_chunk_loop svc freeze sid tab prev new c n row idx) w
     = in_order (map (chunk_exchange svc freeze sid tab prev new) (chunk_bounds c n row)) w"
proof (induction svc freeze sid tab prev new c n row idx arbitrary: w rule: master_chunk_loop.induct)
  case (1 svc freeze sid tab prev new c n row idx)
  show ?case
  proof (cases "row < n")
    case False
    then show ?thesis
      by (subst master_chunk_loop.simps, subst chunk_bounds.simps) (simp add: observed_ret)
  next
    case True
    define ce where "ce = min (row + max 1 c) n"
    have loop: "master_chunk_loop svc freeze sid tab prev new c n row idx =
        and_then (master_copy_chunk svc freeze sid tab prev new idx (row + 1) ce)
          (\<lambda>_. master_chunk_loop svc freeze sid tab prev new c n ce (idx + 1))"
      using True by (subst master_chunk_loop.simps) (simp add: Let_def ce_def)
    have bounds: "chunk_bounds c n row = (row + 1, ce) # chunk_bounds c n ce"
      using True by (subst chunk_bounds.simps) (simp add: Let_def ce_def)
    have IH: "observed (master_chunk_loop svc freeze sid tab prev new c n ce (idx + 1))
        = in_order (map (chunk_exchange svc freeze sid tab prev new) (chunk_bounds c n ce))"
      using "1.IH" [OF True refl refl refl refl] unfolding ce_def by (intro ext)
    show ?thesis
      by (simp add: loop bounds observed_seq master_copy_chunk_exchange IH split: prod.splits)
  qed
qed

lemma update_master_tab_exchange:
  fixes svc :: "'w service" and w :: 'w
  assumes rows: "1 < effective_row_count row_count max_rows"
  shows "observed (update_master_tab svc freeze monday sid tab last_col sheet row_count column_count
                     max_rows chunk_size) w
     = append_exchange svc freeze monday sid tab last_col sheet column_count chunk_size
         (effective_row_count row_count max_rows) w"
proof -
  define n where "n = effective_row_count row_count max_rows"
  define idx where "idx = a1_to_col last_col + 1"
  define prev where "prev = col_to_a1 (a1_to_col last_col)"
  define new where "new = col_to_a1 (a1_to_col last_col + 1)"
  define hdr where "hdr = ValuesUpdate sid (Range tab (Cell new 1)) RAW [[CellStr monday]]"
  define L where "L = master_chunk_loop svc freeze sid tab prev new chunk_size n 1 1"
  define T :: "('w, string) prog" where "T =
     and_then (py_print (''[INFO] Master tab header update: '' @ tab)) (\<lambda>_.
     and_then (exec_request svc hdr) (\<lambda>_.
     and_then (py_print (''[INFO] Master tab chunked copy start: '' @ tab @ '' (rows: ''
                         @ str_int n @ '', chunk: '' @ str_int (max 1 chunk_size) @ '')'')) (\<lambda>_.
     and_then L (\<lambda>_.
     and_then (py_print (''[INFO] Master tab chunked copy done: '' @ tab)) (\<lambda>_.
     and_then (py_print (''[SYNC] Master tab updated: '' @ tab @ '' -> '' @ monday)) (\<lambda>_.
     ret new))))))"
  define U where "U = update_master_tab svc freeze monday sid tab last_col sheet row_count
     column_count max_rows chunk_size"
  have U_eq: "U =
     and_then (py_print (''[INFO] Master tab start: '' @ tab)) (\<lambda>_.
     and_then
       (if idx > column_count then
          and_then (py_print (''[INFO] Master tab expand columns: '' @ tab @ '' (''
                              @ str_int column_count @ '' -> '' @ str_int idx @ '')'')) (\<lambda>_.
          and_then (exec_request svc (UpdateColumnCount sid sheet idx)) (\<lambda>_. ret ()))
        else ret ()) (\<lambda>_. T))"
    using rows
    unfolding U_def update_master_tab_def T_def hdr_def L_def n_def idx_def new_def prev_def
      effective_row_count_def
    by (simp add: Let_def)
  define chunks where
    "chunks = map (chunk_exchange svc freeze sid tab prev new) (chunk_bounds chunk_size n 1)"
  have L_obs: "observed L = in_order chunks"
    unfolding L_def chunks_def by (rule ext) (rule master_chunk_loop_exchange)
  have T_obs: "observed T = in_order (send svc hdr # chunks)"
    unfolding T_def
    by (rule ext)
      (simp add: observed_print_then observed_seq observed_exec_request L_obs observed_ret
        observed_print in_order_nested del: in_order.simps)
  have "observed U w = in_order ((if idx > column_count then [send svc (UpdateColumnCount sid sheet idx)]
            else []) @ send svc hdr # chunks) w"
    unfolding U_eq
    by (cases "idx > column_count")
      (simp_all add: observed_print_then observed_seq observed_exec_request observed_ret T_obs
        observed_print in_order_nested del: in_order.simps)
  then show ?thesis
    unfolding U_def append_exchange_def setup_calls_def chunks_def n_def idx_def hdr_def new_def
      prev_def
    by simp
qed

section \<open>The append engine\<close>

lemma in_chunk_not_structural: "in_chunk sid tab prev new ab req \<Longrightarrow> \<not> is_structural req"
  by (cases "(sid, tab, prev, new, ab, req)" rule: in_chunk.cases) auto

lemma groups_not_structural:
  "list_all2 (chunk_group sid tab prev new) bs gs \<Longrightarrow>
   list_all (\<lambda>req. \<not> is_structural req) (concat gs)"
proof (induction bs gs rule: list_all2_induct)
  case Nil
  then show ?case by simp
next
  case (Cons b bs g gs)
  have "list_all (\<lambda>req. \<not> is_structural req) g"
    using Cons.hyps(1)
    by (auto simp: chunk_group_def list_all_iff dest: in_chunk_not_structural)
  then show ?case
    using Cons.IH by simp
qed

lemma formula_reads_setup: "formula_reads (take k (setup_calls sid tab monday sheet column_count last_col)) = []"
  by (cases k; cases "k - 1") (auto simp: setup_calls_def)

text \<open>
  C3. \<^verbatim>\<open>update_master_tab\<close> on a tab with data rows goes through the data rows 2 to
  \<open>effective_rows\<close> in chunks, in ascending row order, and finishes the requests of one chunk
  before it sends the first of the next. What it exchanges with the remote side (the
  requests it sends, the remote state it leaves, whether it returns) is \<open>append_exchange\<close>:
  the requests before the loop, then for each chunk of \<open>chunk_bounds\<close> in order the read of
  the previous column's rows as formulas, the write of exactly the rows read into the new
  column when there are any, and with freezing on the read of the same rows as values and
  the write of exactly those values back over the previous column when there are any, up
  to the first request that fails. So its requests are the requests before the loop (or
  the first of them, when one fails) followed by one group per chunk, the groups in the
  order of \<open>chunk_bounds\<close>, each group starting with the formula read of its chunk and
  holding only that chunk's requests in the order read, write, read, write; when the call
  returns there is a group for every chunk, and the formula reads are exactly the chunk
  ranges in order. For 50 rows and a chunk size of 20 the ranges are 2-21, 22-41 and
  42-50, and the column after J is K.
\<close>

theorem append_chunks_in_order:
  fixes svc :: "'w service" and w :: 'w
    and freeze monday sid tab last_col sheet row_count column_count max_rows chunk_size
  defines "U \<equiv> update_master_tab svc freeze monday sid tab last_col sheet row_count column_count
                  max_rows chunk_size"
    and "bounds \<equiv> chunk_bounds chunk_size (effective_row_count row_count max_rows) 1"
    and "prev \<equiv> col_to_a1 (a1_to_col last_col)"
    and "new \<equiv> col_to_a1 (a1_to_col last_col + 1)"
  assumes rows: "1 < effective_row_count row_count max_rows"
  shows "observed U w
           = append_exchange svc freeze monday sid tab last_col sheet column_count chunk_size
               (effective_row_count row_count max_rows) w \<and>
         (\<exists>k gs. calls (emitted U w)
                   = take k (setup_calls sid tab monday sheet column_count last_col) @ concat gs \<and>
                 list_all2 (chunk_group sid tab prev new) (take (length gs) bounds) gs \<and>
                 (\<forall>r. outcome U w = Inr r \<longrightarrow> length gs = length bounds)) \<and>
         (\<forall>r. outcome U w = Inr r \<longrightarrow>
              formula_reads (calls (emitted U w))
                = map (\<lambda>(a, b). Range tab (Span prev a prev b)) bounds) \<and>
         concat (map (\<lambda>(a, b). [a..b]) bounds) = [2..effective_row_count row_count max_rows] \<and>
         chunk_bounds 20 (effective_row_count 50 5000) 1 = [(2, 21), (22, 41), (42, 50)] \<and>
         col_to_a1 (a1_to_col ''J'' + 1) = ''K''"
proof -
  have exchange: "observed U w
      = append_exchange svc freeze monday sid tab last_col sheet column_count chunk_size
          (effective_row_count row_count max_rows) w"
    unfolding U_def using rows by (rule update_master_tab_exchange)
  obtain k gs where kg:
    "calls (emitted U w) = take k (setup_calls sid tab monday sheet column_count last_col) @ concat gs"
    "list_all2 (chunk_group sid tab prev new) (take (length gs) bounds) gs"
    "\<forall>r. outcome U w = Inr r \<longrightarrow> length gs = length bounds"
    using update_master_tab_calls [OF rows, of svc freeze monday sid tab last_col sheet column_count
        chunk_size w]
    unfolding U_def bounds_def prev_def new_def by blast
  have reads: "formula_reads (calls (emitted U w))
       = map (\<lambda>(a, b). Range tab (Span prev a prev b)) bounds" if "outcome U w = Inr r" for r
  proof -
    have "length gs = length bounds"
      using kg(3) that by blast
    then have "list_all2 (chunk_group sid tab prev new) bounds gs"
      using kg(2) by simp
    then show ?thesis
      using groups_formula_reads [of sid tab prev new bounds gs]
      by (simp add: kg(1) formula_reads_setup)
  qed
  have rows_eq: "concat (map (\<lambda>(a, b). [a..b]) bounds) = [2..effective_row_count row_count max_rows]"
    using chunk_bounds_rows [of 1 chunk_size "effective_row_count row_count max_rows"]
    by (simp add: bounds_def)
  have scenario: "chunk_bounds 20 (effective_row_count 50 5000) 1 = [(2, 21), (22, 41), (42, 50)]"
    by (simp add: chunk_bounds.simps Let_def effective_row_count_def)
  have label: "col_to_a1 (a1_to_col ''J'' + 1) = ''K''"
    by code_simp
  show ?thesis
    using exchange kg reads rows_eq scenario label by blast
qed

lemma label_J: "a1_to_col ''J'' = 10" "col_to_a1 10 = ''J''" "col_to_a1 11 = ''K''"
  by (code_simp+)

theorem append_chunks_in_order_witness:
  "1 < effective_row_count 50 5000 \<and>
   outcome (update_master_tab ledger_grid True ''2024-12-02'' ''S'' ''Prices'' ''J'' 7 50 10 5000 20) 0
     = Inr ''K'' \<and>
   calls (emitted
      (update_master_tab ledger_grid True ''2024-12-02'' ''S'' ''Prices'' ''J'' 7 50 10 5000 20) 0)
     = [UpdateColumnCount ''S'' 7 11,
        ValuesUpdate ''S'' (Range ''Prices'' (Cell ''K'' 1)) RAW [[CellStr ''2024-12-02'']],
        ValuesGet ''S'' (Range ''Prices'' (Span ''J'' 2 ''J'' 21)) (Some FORMULA),
        ValuesUpdate ''S'' (Range ''Prices'' (Cell ''K'' 2)) USER_ENTERED [[CellStr ''=B2*2'']],
        ValuesGet ''S'' (Range ''Prices'' (Span ''J'' 2 ''J'' 21)) (Some UNFORMATTED_VALUE),
        ValuesUpdate ''S'' (Range ''Prices'' (Cell ''J'' 2)) RAW [[CellInt 84]],
        ValuesGet ''S'' (Range ''Prices'' (Span ''J'' 22 ''J'' 41)) (Some FORMULA),
        ValuesUpdate ''S'' (Range ''Prices'' (Cell ''K'' 22)) USER_ENTERED [[CellStr ''=B2*2'']],
        ValuesGet ''S'' (Range ''Prices'' (Span ''J'' 22 ''J'' 41)) (Some UNFORMATTED_VALUE),
        ValuesUpdate ''S'' (Range ''Prices'' (Cell ''J'' 22)) RAW [[CellInt 84]],
        ValuesGet ''S'' (Range ''Prices'' (Span ''J'' 42 ''J'' 50)) (Some FORMULA),
        ValuesUpdate ''S'' (Range ''Prices'' (Cell ''K'' 42)) USER_ENTERED [[CellStr ''=B2*2'']],
        ValuesGet ''S'' (Range ''Prices'' (Span ''J'' 42 ''J'' 50)) (Some UNFORMATTED_VALUE),
        ValuesUpdate ''S'' (Range ''Prices'' (Cell ''J'' 42)) RAW [[CellInt 84]]] \<and>
   final (update_master_tab ledger_grid True ''2024-12-02'' ''S'' ''Prices'' ''J'' 7 50 10 5000 20) 0
     = 14 \<and>
   append_exchange ledger_grid True ''2024-12-02'' ''S'' ''Prices'' ''J'' 7 10 20
      (effective_row_count 50 5000) 0
     = (calls (emitted
          (update_master_tab ledger_grid True ''2024-12-02'' ''S'' ''Prices'' ''J'' 7 50 10 5000 20) 0),
        14, True) \<and>
   formula_reads (calls (emitted
      (update_master_tab ledger_grid True ''2024-12-02'' ''S'' ''Prices'' ''J'' 7 50 10 5000 20) 0))
     = [Range ''Prices'' (Span ''J'' 2 ''J'' 21), Range ''Prices'' (Span ''J'' 22 ''J'' 41),
        Range ''Prices'' (Span ''J'' 42 ''J'' 50)]"
proof -
  define U where
    "U = update_master_tab ledger_grid True ''2024-12-02'' ''S'' ''Prices'' ''J'' 7 50 10 5000 20"
  note run = update_master_tab_def master_chunk_loop.simps master_copy_chunk_def Let_def
    and_then_def ret_def py_print_def exec_request_def ledger_grid_def scripted_def
    values_response_def label_J
  have rows: "1 < effective_row_count 50 5000"
    by (simp add: effective_row_count_def)
  have ok: "outcome U 0 = Inr ''K''"
    unfolding U_def outcome_def by (simp add: run)
  have sent: "calls (emitted U 0) =
     [UpdateColumnCount ''S'' 7 11,
        ValuesUpdate ''S'' (Range ''Prices'' (Cell ''K'' 1)) RAW [[CellStr ''2024-12-02'']],
        ValuesGet ''S'' (Range ''Prices'' (Span ''J'' 2 ''J'' 21)) (Some FORMULA),
        ValuesUpdate ''S'' (Range ''Prices'' (Cell ''K'' 2)) USER_ENTERED [[CellStr ''=B2*2'']],
        ValuesGet ''S'' (Range ''Prices'' (Span ''J'' 2 ''J'' 21)) (Some UNFORMATTED_VALUE),
        ValuesUpdate ''S'' (Range ''Prices'' (Cell ''J'' 2)) RAW [[CellInt 84]],
        ValuesGet ''S'' (Range ''Prices'' (Span ''J'' 22 ''J'' 41)) (Some FORMULA),
        ValuesUpdate ''S'' (Range ''Prices'' (Cell ''K'' 22)) USER_ENTERED [[CellStr ''=B2*2'']],
        ValuesGet ''S'' (Range ''Prices'' (Span ''J'' 22 ''J'' 41)) (Some UNFORMATTED_VALUE),
        ValuesUpdate ''S'' (Range ''Prices'' (Cell ''J'' 22)) RAW [[CellInt 84]],
        ValuesGet ''S'' (Range ''Prices'' (Span ''J'' 42 ''J'' 50)) (Some FORMULA),
        ValuesUpdate ''S'' (Range ''Prices'' (Cell ''K'' 42)) USER_ENTERED [[CellStr ''=B2*2'']],
        ValuesGet ''S'' (Range ''Prices'' (Span ''J'' 42 ''J'' 50)) (Some UNFORMATTED_VALUE),
        ValuesUpdate ''S'' (Range ''Prices'' (Cell ''J'' 42)) RAW [[CellInt 84]]]"
    unfolding U_def emitted_def by (simp add: run)
  have left: "final U 0 = 14"
    unfolding U_def final_def by (simp add: run)
  have "observed U 0 = append_exchange ledger_grid True ''2024-12-02'' ''S'' ''Prices'' ''J'' 7 10 20
      (effective_row_count 50 5000) 0"
    using append_chunks_in_order [OF rows, where svc = ledger_grid and freeze = True
      and monday = "''2024-12-02''" and sid = "''S''" and tab = "''Prices''" and last_col = "''J''"
      and sheet = 7 and column_count = 10 and chunk_size = 20 and w = 0, folded U_def]
    by blast
  then have spec: "append_exchange ledger_grid True ''2024-12-02'' ''S'' ''Prices'' ''J'' 7 10 20
      (effective_row_count 50 5000) 0 = (calls (emitted U 0), 14, True)"
    using ok left by (simp add: observed_def)
  show ?thesis
    using rows ok left spec unfolding U_def by (simp add: sent [unfolded U_def])
qed

text \<open>
  C6. On a tab with data rows, \<^verbatim>\<open>update_master_tab\<close> returns the label of the column
  \<open>a1_to_col last_col + 1\<close> ("C" gives "D", "Z" gives "AA"). When that index is beyond the
  declared column count, its first request is the structural update that sets the column
  count to exactly that index, and no later request is a structural update; otherwise it
  sends no structural update.
\<close>

theorem append_returns_next_column:
  fixes svc :: "'w service" and w :: 'w
    and freeze monday sid tab last_col sheet row_count column_count max_rows chunk_size
  defines "U \<equiv> update_master_tab svc freeze monday sid tab last_col sheet row_count column_count
                  max_rows chunk_size"
    and "new_col_index \<equiv> a1_to_col last_col + 1"
  assumes rows: "1 < effective_row_count row_count max_rows"
  shows "(\<forall>r. outcome U w = Inr r \<longrightarrow> r = col_to_a1 new_col_index) \<and>
         (new_col_index > column_count \<longrightarrow>
            (\<exists>rest. calls (emitted U w) = UpdateColumnCount sid sheet new_col_index # rest \<and>
                    list_all (\<lambda>req. \<not> is_structural req) rest)) \<and>
         (new_col_index \<le> column_count \<longrightarrow>
            list_all (\<lambda>req. \<not> is_structural req) (calls (emitted U w))) \<and>
         col_to_a1 (a1_to_col ''C'' + 1) = ''D'' \<and>
         col_to_a1 (a1_to_col ''Z'' + 1) = ''AA''"
proof -
  define pre where "pre = setup_calls sid tab monday sheet column_count last_col"
  define hdr where
    "hdr = ValuesUpdate sid (Range tab (Cell (col_to_a1 new_col_index) 1)) RAW [[CellStr monday]]"
  obtain k gs where kg:
    "calls (emitted U w) = take k pre @ concat gs" "1 \<le> k"
    "list_all2 (chunk_group sid tab (col_to_a1 (a1_to_col last_col)) (col_to_a1 (a1_to_col last_col + 1)))
       (take (length gs) (chunk_bounds chunk_size (effective_row_count row_count max_rows) 1)) gs"
    "\<forall>r. outcome U w = Inr r \<longrightarrow> r = col_to_a1 (a1_to_col last_col + 1)"
    using update_master_tab_calls [OF rows, of svc freeze monday sid tab last_col sheet column_count
        chunk_size w]
    unfolding U_def pre_def by blast
  have gs_ok: "list_all (\<lambda>req. \<not> is_structural req) (concat gs)"
    using kg(3) by (rule groups_not_structural)
  have hdr_ok: "list_all (\<lambda>req. \<not> is_structural req) (take j [hdr])" for j
    by (cases j) (simp_all add: hdr_def)
  have big: "\<exists>rest. calls (emitted U w) = UpdateColumnCount sid sheet new_col_index # rest \<and>
                    list_all (\<lambda>req. \<not> is_structural req) rest"
    if "new_col_index > column_count"
  proof -
    have "pre = [UpdateColumnCount sid sheet new_col_index, hdr]"
      using that by (simp add: pre_def setup_calls_def hdr_def new_col_index_def)
    then have "take k pre = UpdateColumnCount sid sheet new_col_index # take (k - 1) [hdr]"
      using kg(2) by (cases k) simp_all
    then show ?thesis
      using kg(1) gs_ok hdr_ok [of "k - 1"] by simp
  qed
  have small: "list_all (\<lambda>req. \<not> is_structural req) (calls (emitted U w))"
    if "new_col_index \<le> column_count"
  proof -
    have "pre = [hdr]"
      using that by (simp add: pre_def setup_calls_def hdr_def new_col_index_def)
    then show ?thesis
      using kg(1) gs_ok hdr_ok [of k] by simp
  qed
  have l1: "col_to_a1 (a1_to_col ''C'' + 1) = ''D''"
    by code_simp
  have l2: "col_to_a1 (a1_to_col ''Z'' + 1) = ''AA''"
    by code_simp
  show ?thesis
    using kg(4) big small l1 l2 by (simp add: new_col_index_def)
qed

lemma label_Z: "a1_to_col ''Z'' = 26" "col_to_a1 27 = ''AA''" "col_to_a1 26 = ''Z''"
  by (code_simp+)

theorem append_returns_next_column_witness:
  "1 < effective_row_count 3 5000 \<and> a1_to_col ''Z'' + 1 > 26 \<and>
   outcome (update_master_tab grid_ok False ''2024-12-02'' ''S'' ''Prices'' ''Z'' 7 3 26 5000 500) 0
     = Inr ''AA'' \<and>
   calls (emitted (update_master_tab grid_ok False ''2024-12-02'' ''S'' ''Prices'' ''Z'' 7 3 26 5000 500) 0)
     = [UpdateColumnCount ''S'' 7 27,
        ValuesUpdate ''S'' (Range ''Prices'' (Cell ''AA'' 1)) RAW [[CellStr ''2024-12-02'']],
        ValuesGet ''S'' (Range ''Prices'' (Span ''Z'' 2 ''Z'' 3)) (Some FORMULA),
        ValuesUpdate ''S'' (Range ''Prices'' (Cell ''AA'' 2)) USER_ENTERED [[CellStr ''=B2'']]] \<and>
   a1_to_col ''Z'' + 1 \<le> 30 \<and>
   list_all (\<lambda>req. \<not> is_structural req)
     (calls (emitted (update_master_tab grid_ok False ''2024-12-02'' ''S'' ''Prices'' ''Z'' 7 3 30 5000 500) 0))"
proof -
  have rows: "1 < effective_row_count 3 5000"
    by (simp add: effective_row_count_def)
  have c: "calls (emitted (update_master_tab grid_ok False ''2024-12-02'' ''S'' ''Prices'' ''Z'' 7 3 26 5000 500) 0)
     = [UpdateColumnCount ''S'' 7 27,
        ValuesUpdate ''S'' (Range ''Prices'' (Cell ''AA'' 1)) RAW [[CellStr ''2024-12-02'']],
        ValuesGet ''S'' (Range ''Prices'' (Span ''Z'' 2 ''Z'' 3)) (Some FORMULA),
        ValuesUpdate ''S'' (Range ''Prices'' (Cell ''AA'' 2)) USER_ENTERED [[CellStr ''=B2'']]]"
    by (simp add: update_master_tab_def master_chunk_loop.simps master_copy_chunk_def Let_def
        outcome_and_then final_and_then emitted_and_then grid_ok_exec label_Z)
  have ok: "outcome (update_master_tab grid_ok False ''2024-12-02'' ''S'' ''Prices'' ''Z'' 7 3 26 5000 500) 0
     = Inr ''AA''"
    by (simp add: update_master_tab_def master_chunk_loop.simps master_copy_chunk_def Let_def
        outcome_and_then final_and_then grid_ok_exec label_Z)
  show ?thesis
    using append_returns_next_column [OF rows, where svc = grid_ok and freeze = False
        and monday = "''2024-12-02''" and sid = "''S''" and tab = "''Prices''" and last_col = "''Z''"
        and sheet = 7 and column_count = 30 and chunk_size = 500 and w = 0] rows c ok
    by (simp add: label_Z)
qed

section \<open>Propagation of remote failures\<close>

lemma propagatingD: "propagating K m \<Longrightarrow> propagates K (outcome m w) (emitted m w)"
  by (simp add: propagating_def)

lemma failed_calls_append [simp]: "failed_calls (xs @ ys) = failed_calls xs @ failed_calls ys"
  by (induction xs rule: failed_calls.induct) simp_all

lemma quiet_by_simps [simp]:
  "quiet_by K []"
  "quiet_by K (xs @ ys) \<longleftrightarrow> quiet_by K xs \<and> quiet_by K ys"
  "quiet_by K (Print l # evs) \<longleftrightarrow> quiet_by K evs"
  "quiet_by K (Sleep n # evs) \<longleftrightarrow> quiet_by K evs"
  "quiet_by K (Call req None # evs) \<longleftrightarrow> quiet_by K evs"
  "quiet_by K (Call req (Some e) # evs) \<longleftrightarrow> K req e \<and> quiet_by K evs"
  by (simp_all add: quiet_by_def)

lemma propagates_Inr [simp]: "propagates K (Inr a) evs \<longleftrightarrow> quiet_by K evs"
  by (simp add: propagates_def)

lemma propagates_Inl [simp]: "propagates K (Inl x) evs \<longleftrightarrow> quiet_by K evs \<or> raised_by K x evs"
  by (simp add: propagates_def)

lemma raised_by_append: "quiet_by K xs \<Longrightarrow> raised_by K x ys \<Longrightarrow> raised_by K x (xs @ ys)"
  by (auto simp: raised_by_def butlast_append)

lemma propagates_append:
  assumes "quiet_by K xs" and "propagates K r ys"
  shows "propagates K r (xs @ ys)"
  using assms by (cases r) (auto simp: raised_by_append)

lemma propagating_and_then:
  assumes "propagating K m" and "\<And>a. propagating K (f a)"
  shows "propagating K (and_then m f)"
  unfolding propagating_def
proof
  fix w
  show "propagates K (outcome (and_then m f) w) (emitted (and_then m f) w)"
  proof (cases "outcome m w")
    case (Inl e)
    then show ?thesis
      using assms(1) spec [of "\<lambda>w. propagates K (outcome m w) (emitted m w)" w]
      by (simp add: propagating_def outcome_and_then emitted_and_then)
  next
    case (Inr a)
    have "quiet_by K (emitted m w)"
      using assms(1) Inr spec [of "\<lambda>w. propagates K (outcome m w) (emitted m w)" w]
      by (simp add: propagating_def)
    moreover have "propagates K (outcome (f a) (final m w)) (emitted (f a) (final m w))"
      using assms(2) by (simp add: propagating_def)
    ultimately show ?thesis
      using Inr by (simp add: outcome_and_then emitted_and_then propagates_append)
  qed
qed

lemma propagating_ret [simp]: "propagating K (ret a)"
  and propagating_raise [simp]: "propagating K (raise e)"
  and propagating_print [simp]: "propagating K (py_print l)"
  by (simp_all add: propagating_def)

lemma propagating_lift [simp]: "propagating K (lift r)"
  by (cases r) (simp_all add: lift_def)

lemma propagating_exec [simp]: "propagating K (exec_request svc req)"
  by (auto simp: propagating_def raised_by_def outcome_def emitted_def exec_request_def
      split: prod.splits sum.splits)

lemma propagating_if:
  "(c \<Longrightarrow> propagating K m) \<Longrightarrow> (\<not> c \<Longrightarrow> propagating K n) \<Longrightarrow> propagating K (if c then m else n)"
  by simp

lemmas propagating_intros =
  propagating_and_then propagating_ret propagating_raise propagating_print propagating_lift
  propagating_exec propagating_if

lemma propagating_master_copy_chunk:
  "propagating K (master_copy_chunk svc freeze sid tab prev new idx a b)"
  unfolding master_copy_chunk_def Let_def
  by (intro propagating_intros)

lemma propagating_master_chunk_loop:
  "propagating K (master_chunk_loop svc freeze sid tab prev new c n row idx)"
proof (induction svc freeze sid tab prev new c n row idx rule: master_chunk_loop.induct)
  case (1 svc freeze sid tab prev new c n row idx)
  show ?case
  proof (cases "row < n")
    case True
    show ?thesis
      using True "1.IH" [OF True refl refl refl refl]
      by (subst master_chunk_loop.simps)
        (simp add: Let_def propagating_and_then propagating_master_copy_chunk)
  next
    case False
    then show ?thesis
      by (subst master_chunk_loop.simps) simp
  qed
qed

lemma propagating_update_master_tab:
  "propagating K (update_master_tab svc freeze monday sid tab last_col sheet row_count column_count
     max_rows chunk_size)"
  unfolding update_master_tab_def Let_def
  by (intro propagating_intros propagating_master_chunk_loop)

section \<open>The requests a run sends\<close>

lemma sends_only_and_then:
  assumes "sends_only P m" and "\<And>a. sends_only P (f a)"
  shows "sends_only P (and_then m f)"
  using assms by (auto simp: sends_only_def emitted_and_then split: sum.splits)

lemma sends_only_ret [simp]: "sends_only P (ret a)"
  and sends_only_raise [simp]: "sends_only P (raise e)"
  and sends_only_print [simp]: "sends_only P (py_print l)"
  by (simp_all add: sends_only_def)

lemma sends_only_exec: "P req \<Longrightarrow> sends_only P (exec_request svc req)"
  by (simp add: sends_only_def)

lemma sends_only_if:
  "(c \<Longrightarrow> sends_only P m) \<Longrightarrow> (\<not> c \<Longrightarrow> sends_only P n) \<Longrightarrow> sends_only P (if c then m else n)"
  by simp

lemmas sends_only_intros =
  sends_only_and_then sends_only_ret sends_only_raise sends_only_print sends_only_if

lemma sends_only_master_copy_chunk:
  assumes "\<And>r opt. range_sheet r = tab \<Longrightarrow> P (ValuesGet sid r opt)"
    and "\<And>r opt vs. range_sheet r = tab \<Longrightarrow> P (ValuesUpdate sid r opt vs)"
  shows "sends_only P (master_copy_chunk svc freeze sid tab prev new idx a b)"
  unfolding master_copy_chunk_def Let_def
  by (intro sends_only_intros sends_only_exec assms) simp_all

lemma sends_only_master_chunk_loop:
  assumes "\<And>r opt. range_sheet r = tab \<Longrightarrow> P (ValuesGet sid r opt)"
    and "\<And>r opt vs. range_sheet r = tab \<Longrightarrow> P (ValuesUpdate sid r opt vs)"
  shows "sends_only P (master_chunk_loop svc freeze sid tab prev new c n row idx)"
  using assms
proof (induction svc freeze sid tab prev new c n row idx rule: master_chunk_loop.induct)
  case (1 svc freeze sid tab prev new c n row idx)
  show ?case
  proof (cases "row < n")
    case True
    show ?thesis
      using True "1.IH" [OF True refl refl refl refl] "1.prems"
      by (subst master_chunk_loop.simps)
        (simp add: Let_def sends_only_and_then sends_only_master_copy_chunk)
  next
    case False
    then show ?thesis
      by (subst master_chunk_loop.simps) simp
  qed
qed

lemma sends_only_update_master_tab:
  assumes "\<And>r opt. range_sheet r = tab \<Longrightarrow> P (ValuesGet sid r opt)"
    and "\<And>r opt vs. range_sheet r = tab \<Longrightarrow> P (ValuesUpdate sid r opt vs)"
    and "\<And>n. P (UpdateColumnCount sid sheet n)"
  shows "sends_only P (update_master_tab svc freeze monday sid tab last_col sheet row_count
           column_count max_rows chunk_size)"
  unfolding update_master_tab_def Let_def
  by (intro sends_only_intros sends_only_exec sends_only_master_chunk_loop assms) simp_all

section \<open>Metadata and the append\<close>

lemma no_failure_propagates:
  assumes "propagates (\<lambda>req e. False) r evs" and "(req, e) \<in> set (failed_calls evs)"
  shows "r = Inl (Remote e)"
proof -
  have q: "quiet_by (\<lambda>req e. False) xs \<longleftrightarrow> failed_calls xs = []" for xs
    by (cases "failed_calls xs") (auto simp: quiet_by_def)
  obtain x where r: "r = Inl x" and raised: "raised_by (\<lambda>req e. False) x evs"
    using assms by (cases r) (auto simp: q)
  have ne: "evs \<noteq> []" and bl: "failed_calls (butlast evs) = []"
    using raised by (auto simp: raised_by_def q)
  obtain req' e' where l: "last evs = Call req' (Some e')" and x: "x = Remote e'"
    using raised by (auto simp: raised_by_def split: event.splits option.splits)
  have "failed_calls evs = failed_calls (butlast evs @ [last evs])"
    using ne by simp
  also have "\<dots> = [(req', e')]"
    using bl l by simp
  finally show ?thesis
    using assms(2) r x by simp
qed

text \<open>
  C1. In the pass of \<^verbatim>\<open>run_update\<close>'s loop for a ledger tab that has its properties and its
  metadata, the metadata is written only after the whole append has returned:
  a failed request of \<^verbatim>\<open>update_master_tab\<close> (a chunk read or write among them) makes it raise
  that error; when it raises, the pass and the loop over the tabs end there with the same
  error, the same events and the same remote state, so nothing is sent after the failure
  and \<^verbatim>\<open>update_master_meta\<close> is not run; when it returns, the events of the pass are the
  events of the append followed by those of \<^verbatim>\<open>update_master_meta\<close>; and no request of the
  append writes to the metadata sheet (for a ledger tab that is not the metadata sheet).
\<close>

theorem metadata_advanced_only_after_append:
  fixes svc :: "'w service" and w :: 'w and ev :: env and cfg :: config and p :: props
    and sheet_props master_meta tab last_col rest
  defines "A \<equiv> update_master_tab svc (master_freeze_values ev) (week_monday ev) (target_sheet_id cfg)
                  tab last_col (sheetId p) (rowCount p) (columnCount p) (master_max_rows ev)
                  (master_chunk_size ev)"
    and "step \<equiv> master_tab_step svc ev cfg sheet_props master_meta tab"
    and "loop \<equiv> master_loop svc ev cfg sheet_props master_meta (tab # rest)"
    and "M \<equiv> \<lambda>new_col. update_master_meta svc (target_sheet_id cfg) (master_meta_sheet cfg)
                  (master_meta_range cfg) (master_meta_rows cfg) tab new_col"
  assumes only: "master_only_tab ev = [] \<or> tab = master_only_tab ev"
    and props: "sheet_props tab = Some p"
    and meta: "master_meta tab = Some last_col"
    and label: "last_col \<noteq> []"
  shows "(\<forall>req e. (req, e) \<in> set (failed_calls (emitted A w)) \<longrightarrow> outcome A w = Inl (Remote e)) \<and>
         (\<forall>e. outcome A w = Inl e \<longrightarrow>
              outcome step w = Inl e \<and> emitted step w = emitted A w \<and> final step w = final A w \<and>
              outcome loop w = Inl e \<and> emitted loop w = emitted A w \<and> final loop w = final A w) \<and>
         (\<forall>new_col. outcome A w = Inr new_col \<longrightarrow>
              emitted step w
                = emitted A w @ (if new_col \<noteq> last_col then emitted (M new_col) (final A w) else [])) \<and>
         (tab \<noteq> master_meta_sheet cfg \<longrightarrow>
              list_all (\<lambda>req. \<not> writes_to (master_meta_sheet cfg) req) (calls (emitted A w)))"
proof (intro conjI allI impI)
  fix req e
  assume "(req, e) \<in> set (failed_calls (emitted A w))"
  moreover have "propagates (\<lambda>req e. False) (outcome A w) (emitted A w)"
    unfolding A_def by (rule propagatingD) (rule propagating_update_master_tab)
  ultimately show "outcome A w = Inl (Remote e)"
    using no_failure_propagates by blast
next
  have step_eq: "step = and_then A (\<lambda>new_col. if new_col \<noteq> last_col then M new_col else ret ())"
    using only props meta label unfolding step_def A_def M_def master_tab_step_def by auto
  have loop_eq: "loop = and_then step (\<lambda>_. master_loop svc ev cfg sheet_props master_meta rest)"
    by (simp add: loop_def step_def)
  {
    fix e
    assume fail: "outcome A w = Inl e"
    show "outcome step w = Inl e" "emitted step w = emitted A w" "final step w = final A w"
      using fail by (simp_all add: step_eq outcome_and_then emitted_and_then final_and_then)
    then show "outcome loop w = Inl e" "emitted loop w = emitted A w" "final loop w = final A w"
      by (simp_all add: loop_eq outcome_and_then emitted_and_then final_and_then)
  }
  {
    fix new_col
    assume "outcome A w = Inr new_col"
    then show "emitted step w
        = emitted A w @ (if new_col \<noteq> last_col then emitted (M new_col) (final A w) else [])"
      by (simp add: step_eq emitted_and_then)
  }
next
  assume "tab \<noteq> master_meta_sheet cfg"
  then have "sends_only (\<lambda>req. \<not> writes_to (master_meta_sheet cfg) req) A"
    unfolding A_def by (intro sends_only_update_master_tab) simp_all
  then show "list_all (\<lambda>req. \<not> writes_to (master_meta_sheet cfg) req) (calls (emitted A w))"
    by (simp add: sends_only_def)
qed

lemma scripted_exec:
  "outcome (exec_request (scripted fail answer) req) n =
     (case fail req of Some e \<Rightarrow> Inl (Remote e) | None \<Rightarrow> Inr (answer req))"
  "final (exec_request (scripted fail answer) req) n = Suc n"
  "emitted (exec_request (scripted fail answer) req) n = [Call req (fail req)]"
  by (simp_all add: outcome_def final_def emitted_def exec_request_def scripted_def
      split: option.splits)

lemmas run_simps =
  outcome_and_then final_and_then emitted_and_then scripted_exec Let_def
  master_chunk_loop.simps master_copy_chunk_def update_master_tab_def

theorem metadata_advanced_only_after_append_witness:
  "(master_only_tab demo_env = [] \<or> ''Prices'' = master_only_tab demo_env) \<and>
   [''Prices'' \<mapsto> demo_props] ''Prices'' = Some demo_props \<and>
   [''Prices'' \<mapsto> ''J''] ''Prices'' = Some ''J'' \<and> ''J'' \<noteq> [] \<and>
   ''Prices'' \<noteq> master_meta_sheet demo_config \<and>
   outcome (master_tab_step
       (scripted (\<lambda>req. if req = ValuesGet ''S'' (Range ''Prices'' (Span ''J'' 22 ''J'' 41)) (Some FORMULA)
                         then Some (TransportError ''timed out'') else None) demo_answer)
       demo_env demo_config [''Prices'' \<mapsto> demo_props] [''Prices'' \<mapsto> ''J''] ''Prices'') 0
     = Inl (Remote (TransportError ''timed out'')) \<and>
   calls (emitted (master_tab_step
       (scripted (\<lambda>req. if req = ValuesGet ''S'' (Range ''Prices'' (Span ''J'' 22 ''J'' 41)) (Some FORMULA)
                         then Some (TransportError ''timed out'') else None) demo_answer)
       demo_env demo_config [''Prices'' \<mapsto> demo_props] [''Prices'' \<mapsto> ''J''] ''Prices'') 0)
     = [UpdateColumnCount ''S'' 7 11,
        ValuesUpdate ''S'' (Range ''Prices'' (Cell ''K'' 1)) RAW [[CellStr ''2024-12-02'']],
        ValuesGet ''S'' (Range ''Prices'' (Span ''J'' 2 ''J'' 21)) (Some FORMULA),
        ValuesUpdate ''S'' (Range ''Prices'' (Cell ''K'' 2)) USER_ENTERED [[CellStr ''=B2'']],
        ValuesGet ''S'' (Range ''Prices'' (Span ''J'' 2 ''J'' 21)) (Some UNFORMATTED_VALUE),
        ValuesUpdate ''S'' (Range ''Prices'' (Cell ''J'' 2)) RAW [[CellStr ''J'']],
        ValuesGet ''S'' (Range ''Prices'' (Span ''J'' 22 ''J'' 41)) (Some FORMULA)]"
proof -
  define svc where "svc = scripted
     (\<lambda>req. if req = ValuesGet ''S'' (Range ''Prices'' (Span ''J'' 22 ''J'' 41)) (Some FORMULA)
             then Some (TransportError ''timed out'') else None) demo_answer"
  define A where "A = update_master_tab svc True ''2024-12-02'' ''S'' ''Prices'' ''J'' 7 50 10 5000 20"
  have fail: "outcome A 0 = Inl (Remote (TransportError ''timed out''))"
    unfolding A_def svc_def by (simp add: run_simps label_J values_response_def)
  have sent: "calls (emitted A 0)
     = [UpdateColumnCount ''S'' 7 11,
        ValuesUpdate ''S'' (Range ''Prices'' (Cell ''K'' 1)) RAW [[CellStr ''2024-12-02'']],
        ValuesGet ''S'' (Range ''Prices'' (Span ''J'' 2 ''J'' 21)) (Some FORMULA),
        ValuesUpdate ''S'' (Range ''Prices'' (Cell ''K'' 2)) USER_ENTERED [[CellStr ''=B2'']],
        ValuesGet ''S'' (Range ''Prices'' (Span ''J'' 2 ''J'' 21)) (Some UNFORMATTED_VALUE),
        ValuesUpdate ''S'' (Range ''Prices'' (Cell ''J'' 2)) RAW [[CellStr ''J'']],
        ValuesGet ''S'' (Range ''Prices'' (Span ''J'' 22 ''J'' 41)) (Some FORMULA)]"
    unfolding A_def svc_def by (simp add: run_simps label_J values_response_def)
  have hyps: "master_only_tab demo_env = [] \<or> ''Prices'' = master_only_tab demo_env"
    "[''Prices'' \<mapsto> demo_props] ''Prices'' = Some demo_props"
    "[''Prices'' \<mapsto> ''J''] ''Prices'' = Some ''J''" "''J'' \<noteq> []"
    by (simp_all add: demo_env_def)
  have A_eq: "A = update_master_tab svc (master_freeze_values demo_env) (week_monday demo_env)
      (target_sheet_id demo_config) ''Prices'' ''J'' (sheetId demo_props) (rowCount demo_props)
      (columnCount demo_props) (master_max_rows demo_env) (master_chunk_size demo_env)"
    by (simp add: A_def demo_env_def demo_config_def demo_props_def)
  show ?thesis
    using metadata_advanced_only_after_append [where svc = svc and cfg = demo_config
        and ev = demo_env and tab = "''Prices''" and p = demo_props and last_col = "''J''"
        and sheet_props = "[''Prices'' \<mapsto> demo_props]" and master_meta = "[''Prices'' \<mapsto> ''J'']"
        and w = 0 and rest = "[]"] fail sent hyps
    unfolding A_eq [symmetric] svc_def [symmetric]
    by (simp add: demo_config_def)
qed

section \<open>An invalid previous column\<close>

lemma freeze_skips_invalid_previous_column:
  assumes "sheet_props tab = Some p" and "meta_map tab = Some last_col" and "last_col \<noteq> []"
    and "a1_to_col last_col \<le> 0"
  shows "freeze_tab_step svc fe cfg sheet_props meta_map tab w =
           (Inr (), w, [Print (''[SKIP] Invalid prev column for '' @ tab @ '': '' @ last_col)])"
  using assms by (simp add: freeze_tab_step_def Let_def py_print_def)

lemma label_1: "a1_to_col ''1'' = 0" "col_to_a1 1 = ''A''" "col_to_a1 0 = []"
  by (code_simp+)

text \<open>
  C2. A stored label that parses to the column index 0 ("1", say) is skipped by the freeze
  job, with the line "[SKIP] Invalid prev column ..." and no request, but not by the
  append: \<^verbatim>\<open>update_master_tab\<close> has no such check. On a tab of three rows it writes the
  header into column A, reads the rows 2 to 3 over a range with no column letter, writes
  what it read into column A and returns "A", and the pass of \<^verbatim>\<open>run_update\<close> then stores
  "A" as the tab's last column.
\<close>

theorem append_ignores_invalid_previous_column:
  "a1_to_col ''1'' = 0 \<and>
   freeze_tab_step grid_ok \<lparr>freeze_only_tab = [], freeze_last_col = [], freeze_max_rows = 5000,
       freeze_chunk_size = 2000\<rparr> demo_config [''Prices'' \<mapsto> \<lparr>sheetId = 7, rowCount = 3, columnCount = 10\<rparr>]
       [''Prices'' \<mapsto> ''1''] ''Prices'' 0
     = (Inr (), 0, [Print ''[SKIP] Invalid prev column for Prices: 1'']) \<and>
   outcome (update_master_tab grid_ok False ''2024-12-02'' ''S'' ''Prices'' ''1'' 7 3 10 5000 20) 0
     = Inr ''A'' \<and>
   calls (emitted (update_master_tab grid_ok False ''2024-12-02'' ''S'' ''Prices'' ''1'' 7 3 10 5000 20) 0)
     = [ValuesUpdate ''S'' (Range ''Prices'' (Cell ''A'' 1)) RAW [[CellStr ''2024-12-02'']],
        ValuesGet ''S'' (Range ''Prices'' (Span [] 2 [] 3)) (Some FORMULA),
        ValuesUpdate ''S'' (Range ''Prices'' (Cell ''A'' 2)) USER_ENTERED [[CellStr ''=B2'']]] \<and>
   calls (emitted (master_tab_step grid_ok (demo_env\<lparr>master_freeze_values := False\<rparr>) demo_config
       [''Prices'' \<mapsto> \<lparr>sheetId = 7, rowCount = 3, columnCount = 10\<rparr>] [''Prices'' \<mapsto> ''1''] ''Prices'') 0)
     = [ValuesUpdate ''S'' (Range ''Prices'' (Cell ''A'' 1)) RAW [[CellStr ''2024-12-02'']],
        ValuesGet ''S'' (Range ''Prices'' (Span [] 2 [] 3)) (Some FORMULA),
        ValuesUpdate ''S'' (Range ''Prices'' (Cell ''A'' 2)) USER_ENTERED [[CellStr ''=B2'']],
        ValuesUpdate ''S'' (Range ''Master_Meta'' (Cell ''B'' 2)) RAW [[CellStr ''A'']]]"
proof -
  have frz: "freeze_tab_step grid_ok \<lparr>freeze_only_tab = [], freeze_last_col = [], freeze_max_rows = 5000,
       freeze_chunk_size = 2000\<rparr> demo_config [''Prices'' \<mapsto> \<lparr>sheetId = 7, rowCount = 3, columnCount = 10\<rparr>]
       [''Prices'' \<mapsto> ''1''] ''Prices'' 0
     = (Inr (), 0, [Print ''[SKIP] Invalid prev column for Prices: 1''])"
    by (simp add: freeze_tab_step_def Let_def py_print_def label_1)
  have ok: "outcome (update_master_tab grid_ok False ''2024-12-02'' ''S'' ''Prices'' ''1'' 7 3 10 5000 20) 0
     = Inr ''A''"
    by (simp add: update_master_tab_def master_chunk_loop.simps master_copy_chunk_def Let_def
        outcome_and_then final_and_then grid_ok_exec label_1)
  have sent: "calls (emitted (update_master_tab grid_ok False ''2024-12-02'' ''S'' ''Prices'' ''1'' 7 3 10 5000 20) 0)
     = [ValuesUpdate ''S'' (Range ''Prices'' (Cell ''A'' 1)) RAW [[CellStr ''2024-12-02'']],
        ValuesGet ''S'' (Range ''Prices'' (Span [] 2 [] 3)) (Some FORMULA),
        ValuesUpdate ''S'' (Range ''Prices'' (Cell ''A'' 2)) USER_ENTERED [[CellStr ''=B2'']]]"
    by (simp add: update_master_tab_def master_chunk_loop.simps master_copy_chunk_def Let_def
        outcome_and_then final_and_then emitted_and_then grid_ok_exec label_1)
  have meta: "calls (emitted (update_master_meta grid_ok ''S'' ''Master_Meta'' ''A1:B10'' [(''Prices'', 2)]
       ''Prices'' ''A'') w) = [ValuesUpdate ''S'' (Range ''Master_Meta'' (Cell ''B'' 2)) RAW [[CellStr ''A'']]]" for w
    by (simp add: update_master_meta_def meta_update_request_def outcome_and_then final_and_then
        emitted_and_then grid_ok_exec)
  have step: "calls (emitted (master_tab_step grid_ok (demo_env\<lparr>master_freeze_values := False\<rparr>) demo_config
       [''Prices'' \<mapsto> \<lparr>sheetId = 7, rowCount = 3, columnCount = 10\<rparr>] [''Prices'' \<mapsto> ''1''] ''Prices'') 0)
     = [ValuesUpdate ''S'' (Range ''Prices'' (Cell ''A'' 1)) RAW [[CellStr ''2024-12-02'']],
        ValuesGet ''S'' (Range ''Prices'' (Span [] 2 [] 3)) (Some FORMULA),
        ValuesUpdate ''S'' (Range ''Prices'' (Cell ''A'' 2)) USER_ENTERED [[CellStr ''=B2'']],
        ValuesUpdate ''S'' (Range ''Master_Meta'' (Cell ''B'' 2)) RAW [[CellStr ''A'']]]"
    by (simp add: master_tab_step_def demo_env_def demo_config_def emitted_and_then ok sent meta)
  show ?thesis
    using frz ok sent step by (simp add: label_1)
qed

section \<open>The extraction stage\<close>

lemma exec_request_ok:
  "svc req w = (Inr resp, w1) \<Longrightarrow> outcome (exec_request svc req) w = Inr resp"
  "svc req w = (Inr resp, w1) \<Longrightarrow> final (exec_request svc req) w = w1"
  by (simp_all add: outcome_def final_def exec_request_def)

lemma write_target_values_calls:
  "calls (emitted (write_target_values svc sid tab vs) w) =
     (if vs = [] then [] else [ValuesUpdate sid (Range tab (Cell ''A'' 1)) RAW vs])"
  by (simp add: write_target_values_def emitted_and_then split: sum.splits)

lemma try_except_http_parts:
  "outcome (try_except_http body handler rest) w =
     (case outcome body w of
        Inl (Remote (HttpError m)) \<Rightarrow> outcome (handler m) (final body w)
      | Inl e \<Rightarrow> Inl e
      | Inr a \<Rightarrow> outcome (rest a) (final body w))"
  "emitted (try_except_http body handler rest) w =
     (case outcome body w of
        Inl (Remote (HttpError m)) \<Rightarrow> emitted body w @ emitted (handler m) (final body w)
      | Inl e \<Rightarrow> emitted body w
      | Inr a \<Rightarrow> emitted body w @ emitted (rest a) (final body w))"
  "final (try_except_http body handler rest) w =
     (case outcome body w of
        Inl (Remote (HttpError m)) \<Rightarrow> final (handler m) (final body w)
      | Inl e \<Rightarrow> final body w
      | Inr a \<Rightarrow> final (rest a) (final body w))"
  by (simp_all add: outcome_def final_def emitted_def try_except_http_def
      split: prod.splits sum.splits exn.splits remote_error.splits)

lemma lift_parts [simp]:
  "outcome (lift r) w = r" "final (lift r) w = w" "emitted (lift r) w = []"
  by (cases r; simp add: lift_def)+

text \<open>
  C10. When the read of the selected source returns no rows, the pass of the extraction
  loop still clears the target range of the staging tab and sends no write: its requests
  are the read and the clear, and nothing else. \<^verbatim>\<open>write_target_values\<close> sends no request
  exactly when the list of values is empty; otherwise it sends one update of the values at
  A1.
\<close>

theorem empty_source_clears_without_write:
  fixes svc :: "'w service" and w w2 :: 'w and cfg :: config and m :: mapping
  defines "read \<equiv> \<lambda>f. ValuesGet (f_id f) (Range (source_sheet_name cfg) (A1 (source_range cfg))) None"
  assumes tab: "sheet_props (target_tab m) \<noteq> None"
    and latest: "select_latest_file lib files (prefix m) (exclude_prefixes m) = Inr (Some f)"
    and reason: "get_selection_reason lib f (prefix m) = Inr why"
    and empty: "svc (read f) w = (Inr resp, w1)" "resp_values resp = []"
  shows "calls (emitted (extract_mapping svc lib cfg files sheet_props m) w)
           = [read f, ValuesClear (target_sheet_id cfg) (Range (target_tab m) (A1 (target_range cfg)))] \<and>
         (calls (emitted (write_target_values svc sid t vs) w2) = [] \<longleftrightarrow> vs = []) \<and>
         (vs \<noteq> [] \<longrightarrow> calls (emitted (write_target_values svc sid t vs) w2)
                         = [ValuesUpdate sid (Range t (Cell ''A'' 1)) RAW vs])"
proof -
  have r: "outcome (exec_request svc (read f)) w = Inr resp"
    using empty(1) by (rule exec_request_ok)
  have "calls (emitted (extract_mapping svc lib cfg files sheet_props m) w)
      = [read f, ValuesClear (target_sheet_id cfg) (Range (target_tab m) (A1 (target_range cfg)))]"
    using tab latest reason r empty(2)
    by (simp add: extract_mapping_def Let_def read_source_values_def clear_target_range_def
        write_target_values_def outcome_and_then final_and_then emitted_and_then
        try_except_http_parts read_def split: sum.splits)
  then show ?thesis
    by (simp add: write_target_values_calls)
qed

lemma demo_selection:
  "select_latest_file sample_lib demo_files ''comp_'' [] = Inr (Some (hd demo_files))"
  "get_selection_reason sample_lib (hd demo_files) ''comp_'' = Inr ''name_timestamp=2024-12-02 00:00:00''"
  by (code_simp+)

theorem empty_source_clears_without_write_witness:
  "[''Staging'' \<mapsto> demo_props] (target_tab (hd (mappings demo_config))) \<noteq> None \<and>
   select_latest_file sample_lib demo_files ''comp_'' [] = Inr (Some (hd demo_files)) \<and>
   scripted (\<lambda>req. None) empty_source_answer
      (ValuesGet ''file1'' (Range ''Sheet1'' (A1 ''A1:Z'')) None) 0 = (Inr (values_response []), 1) \<and>
   resp_values (values_response []) = [] \<and>
   calls (emitted (extract_mapping (scripted (\<lambda>req. None) empty_source_answer) sample_lib demo_config
       demo_files [''Staging'' \<mapsto> demo_props] (hd (mappings demo_config))) 0)
     = [ValuesGet ''file1'' (Range ''Sheet1'' (A1 ''A1:Z'')) None,
        ValuesClear ''S'' (Range ''Staging'' (A1 ''A1:Z''))] \<and>
   calls (emitted (write_target_values (scripted (\<lambda>req. None) empty_source_answer) ''S'' ''Staging''
       [[CellStr ''x'']]) 0)
     = [ValuesUpdate ''S'' (Range ''Staging'' (Cell ''A'' 1)) RAW [[CellStr ''x'']]]"
proof -
  define m where "m = hd (mappings demo_config)"
  have m: "prefix m = ''comp_''" "exclude_prefixes m = []" "target_tab m = ''Staging''"
    by (simp_all add: m_def demo_config_def)
  have f: "f_id (hd demo_files) = ''file1''"
    by (simp add: demo_files_def)
  have cfg: "source_sheet_name demo_config = ''Sheet1''" "source_range demo_config = ''A1:Z''"
    "target_sheet_id demo_config = ''S''" "target_range demo_config = ''A1:Z''"
    by (simp_all add: demo_config_def)
  have tab: "[''Staging'' \<mapsto> demo_props] (target_tab m) \<noteq> None"
    by (simp add: m)
  have rd: "scripted (\<lambda>req. None) empty_source_answer
      (ValuesGet ''file1'' (Range ''Sheet1'' (A1 ''A1:Z'')) None) 0 = (Inr (values_response []), 1)"
    by (simp add: scripted_def)
  have e: "resp_values (values_response []) = []"
    by (simp add: values_response_def)
  show ?thesis
    using empty_source_clears_without_write [where svc = "scripted (\<lambda>req. None) empty_source_answer"
        and lib = sample_lib and cfg = demo_config and files = demo_files and m = m
        and sheet_props = "[''Staging'' \<mapsto> demo_props]" and f = "hd demo_files"
        and why = "''name_timestamp=2024-12-02 00:00:00''" and w = 0 and ?w1.0 = 1
        and resp = "values_response []" and sid = "''S''" and t = "''Staging''"
        and vs = "[[CellStr ''x'']]" and ?w2.0 = 0]
      tab demo_selection rd e
    unfolding m_def [symmetric]
    by (simp add: m f cfg scripted_def)
qed

section \<open>Remote failures in a run of the update job\<close>





lemma propagating_meta_rows_loop: "propagating K (meta_rows_loop svc sid meta_sheet rows result)"
proof (induction rows arbitrary: result)
  case Nil
  then show ?case by simp
next
  case (Cons r rows)
  obtain tab row_idx where r: "r = (tab, row_idx)"
    by (cases r)
  show ?case
    unfolding r by (simp add: Let_def) (intro propagating_intros Cons.IH)
qed


lemma propagating_get_master_meta_from_rows:
  "propagating K (get_master_meta_from_rows svc sid meta_sheet rows)"
  unfolding get_master_meta_from_rows_def by (intro propagating_intros propagating_meta_rows_loop)
















lemma demo_file: "f_id (hd demo_files) = ''file1''" "f_name (hd demo_files) = ''comp_241202''"
  by (simp_all add: demo_files_def)

lemma label_J_meta: "upper (strip ''J'') = ''J''"
  by code_simp

lemmas prog_simps =
  and_then_def ret_def raise_def py_print_def exec_request_def try_except_http_def lift_def
  scripted_def Let_def

lemmas update_job_simps =
  run_update_def get_sheet_properties_map_def get_master_meta_map_def extract_mapping_def
  master_tab_step_def update_master_meta_def meta_update_request_def read_source_values_def
  clear_target_range_def write_target_values_def update_master_tab_def master_copy_chunk_def
  master_chunk_loop.simps or_zero_def values_response_def demo_sheets_def demo_config_def
  demo_env_def demo_selection demo_file label_J label_J_meta

lemma attempts: "[1..RETRY_COUNT] = [1, 2, 3]"
  by (simp add: RETRY_COUNT_def upto_rec1)




section \<open>Exit codes\<close>

lemma sleeps_append [simp]: "sleeps (xs @ ys) = sleeps xs @ sleeps ys"
  by (induction xs rule: sleeps.induct) simp_all

lemma main_tab_missing:
  assumes "outcome (run_update svc lib ev cfg) w = Inl (TabMissingError msg)"
  shows "main svc lib ev cfg w
           = (2, final (run_update svc lib ev cfg) w,
              emitted (run_update svc lib ev cfg) w @ [Print (''[FAIL] '' @ msg)])"
proof -
  have "run_update svc lib ev cfg w
      = (Inl (TabMissingError msg), final (run_update svc lib ev cfg) w,
         emitted (run_update svc lib ev cfg) w)"
    using assms prog_cases [of "run_update svc lib ev cfg" w] by simp
  then show ?thesis
    by (simp add: main_def attempts)
qed

lemma main_loop_codes: "fst (main_loop svc lib ev cfg as w) \<in> {0, 1, 2}"
proof (induction as arbitrary: w)
  case Nil
  then show ?case by simp
next
  case (Cons a as)
  obtain r w1 ev1 where run: "run_update svc lib ev cfg w = (r, w1, ev1)"
    by (cases "run_update svc lib ev cfg w")
  show ?case
  proof (cases r)
    case (Inr u)
    then show ?thesis
      using run by simp
  next
    case (Inl exc)
    obtain code w2 ev2 where rest: "main_loop svc lib ev cfg as w1 = (code, w2, ev2)"
      by (cases "main_loop svc lib ev cfg as w1")
    have "code \<in> {0, 1, 2}"
      using Cons.IH [of w1] rest by simp
    then show ?thesis
      using run Inl rest by (cases exc) auto
  qed
qed

lemma main_codes: "fst (main svc lib ev cfg w) \<in> {0, 1, 2}"
  unfolding main_def by (rule main_loop_codes)

lemma main_loop_sleeps:
  assumes quiet_run: "\<And>w. sleeps (emitted (run_update svc lib ev cfg) w) = []"
    and "as \<noteq> []" and "\<not> last as < RETRY_COUNT"
  shows "length (sleeps (snd (snd (main_loop svc lib ev cfg as w)))) \<le> length as - 1 \<and>
         set (sleeps (snd (snd (main_loop svc lib ev cfg as w)))) \<subseteq> {RETRY_DELAY_SECONDS}"
  using assms(2,3)
proof (induction as arbitrary: w)
  case Nil
  then show ?case by simp
next
  case (Cons a as)
  obtain r w1 ev1 where run: "run_update svc lib ev cfg w = (r, w1, ev1)"
    by (cases "run_update svc lib ev cfg w")
  have quiet: "sleeps ev1 = []"
    using quiet_run [of w] run by (simp add: emitted_def)
  show ?case
  proof (cases r)
    case (Inr u)
    then show ?thesis
      using run quiet by simp
  next
    case (Inl exc)
    show ?thesis
    proof (cases "a < RETRY_COUNT")
      case False
      then show ?thesis
        using run Inl quiet by (cases exc) (auto simp: attempt_error_def)
    next
      case True
      then have more: "as \<noteq> []" "\<not> last as < RETRY_COUNT"
        using Cons.prems by (auto split: if_splits)
      obtain code w2 ev2 where rest: "main_loop svc lib ev cfg as w1 = (code, w2, ev2)"
        by (cases "main_loop svc lib ev cfg as w1")
      have ih: "length (sleeps ev2) \<le> length as - 1" "set (sleeps ev2) \<subseteq> {RETRY_DELAY_SECONDS}"
        using Cons.IH [OF more, of w1] rest by simp_all
      have "Suc (length (sleeps ev2)) \<le> length as"
        using ih(1) more(1) by (cases as) auto
      then show ?thesis
        using run Inl quiet rest True ih(2) by (cases exc) (auto simp: attempt_error_def)
    qed
  qed
qed

lemma main_sleeps:
  assumes "\<And>w. sleeps (emitted (run_update svc lib ev cfg) w) = []"
  shows "length (sleeps (snd (snd (main svc lib ev cfg w)))) \<le> 2 \<and>
         set (sleeps (snd (snd (main svc lib ev cfg w)))) \<subseteq> {RETRY_DELAY_SECONDS}"
  using main_loop_sleeps [OF assms, of "[1, 2, 3]" w]
  unfolding main_def attempts
  by (simp add: RETRY_COUNT_def del: main_loop.simps)

lemma sleeps_of_calls_and_prints:
  "list_all (\<lambda>ev. case ev of Sleep n \<Rightarrow> False | _ \<Rightarrow> True) evs \<Longrightarrow> sleeps evs = []"
  by (induction evs rule: sleeps.induct) simp_all

lemma freeze_main_all_fail:
  assumes fails: "\<And>w. \<exists>e. outcome (run_freeze svc fe cfg) w = Inl e"
    and quiet: "\<And>w. sleeps (emitted (run_freeze svc fe cfg) w) = []"
  shows "fst (freeze_main svc fe cfg w) = 1 \<and>
         sleeps (snd (snd (freeze_main svc fe cfg w))) = [RETRY_DELAY_SECONDS, RETRY_DELAY_SECONDS]"
proof -
  have step: "\<exists>e w1 ev1. run_freeze svc fe cfg w = (Inl e, w1, ev1) \<and> sleeps ev1 = []" for w
    using fails [of w] quiet [of w] prog_cases [of "run_freeze svc fe cfg" w] by auto
  obtain e1 w1 ev1 where r1: "run_freeze svc fe cfg w = (Inl e1, w1, ev1)" "sleeps ev1 = []"
    using step by blast
  obtain e2 w2 ev2 where r2: "run_freeze svc fe cfg w1 = (Inl e2, w2, ev2)" "sleeps ev2 = []"
    using step by blast
  obtain e3 w3 ev3 where r3: "run_freeze svc fe cfg w2 = (Inl e3, w3, ev3)" "sleeps ev3 = []"
    using step by blast
  have three: "[1..3] = [1, 2, 3 :: int]"
    by (simp add: upto_rec1)
  show ?thesis
    using r1 r2 r3 by (simp add: freeze_main_def RETRY_COUNT_def three attempt_error_def)
qed

lemmas freeze_job_simps =
  run_freeze_def get_sheet_properties_map_def get_master_meta_from_rows_def freeze_tab_step_def
  or_zero_def values_response_def demo_sheets_def demo_config_def missing_tab_config_def
  demo_freeze_env_def demo_grid_def

text \<open>
  C5. The update job gives a missing ledger tab the exit code 2 at once. The freeze job
  does not: \<^verbatim>\<open>run_freeze\<close> raises \<^verbatim>\<open>RuntimeError\<close> for the same condition, and its \<^verbatim>\<open>main\<close>
  has no clause for it, so the run is tried three times with two sleeps of 120 seconds and
  the exit code is 1, the code of exhausted retries.
\<close>

theorem freeze_job_retries_missing_tab:
  "outcome (run_freeze demo_grid demo_freeze_env missing_tab_config) 0
     = Inl (RuntimeError ''Master tab not found: Ledger'') \<and>
   fst (freeze_main demo_grid demo_freeze_env missing_tab_config 0) = 1 \<and>
   sleeps (snd (snd (freeze_main demo_grid demo_freeze_env missing_tab_config 0))) = [120, 120] \<and>
   outcome (run_update demo_grid sample_lib demo_env missing_tab_config) 0
     = Inl (TabMissingError ''Master tab not found: Ledger'') \<and>
   fst (main demo_grid sample_lib demo_env missing_tab_config 0) = 2 \<and>
   sleeps (snd (snd (main demo_grid sample_lib demo_env missing_tab_config 0))) = []"
proof -
  have frz: "outcome (run_freeze demo_grid demo_freeze_env missing_tab_config) n
      = Inl (RuntimeError ''Master tab not found: Ledger'') \<and>
     sleeps (emitted (run_freeze demo_grid demo_freeze_env missing_tab_config) n) = []" for n
    unfolding outcome_def emitted_def
    by (simp add: freeze_job_simps prog_simps)
  have upd: "outcome (run_update demo_grid sample_lib demo_env missing_tab_config) 0
      = Inl (TabMissingError ''Master tab not found: Ledger'') \<and>
     sleeps (emitted (run_update demo_grid sample_lib demo_env missing_tab_config) 0) = []"
    unfolding outcome_def emitted_def
    by (simp add: update_job_simps missing_tab_config_def demo_grid_def prog_simps)
  have "fst (freeze_main demo_grid demo_freeze_env missing_tab_config 0) = 1 \<and>
        sleeps (snd (snd (freeze_main demo_grid demo_freeze_env missing_tab_config 0)))
          = [RETRY_DELAY_SECONDS, RETRY_DELAY_SECONDS]"
    using frz by (intro freeze_main_all_fail) auto
  moreover have "main demo_grid sample_lib demo_env missing_tab_config 0
      = (2, final (run_update demo_grid sample_lib demo_env missing_tab_config) 0,
         emitted (run_update demo_grid sample_lib demo_env missing_tab_config) 0
         @ [Print (''[FAIL] '' @ ''Master tab not found: Ledger'')])"
    using upd by (intro main_tab_missing) simp
  ultimately show ?thesis
    using frz [of 0] upd by (simp add: RETRY_DELAY_SECONDS_def)
qed

section \<open>The source selector\<close>

lemma dt_eq_rank: "dt_eq a b \<longleftrightarrow> dt_rank a = dt_rank b"
  by (auto simp: dt_eq_def dt_rank_def)

lemma dt_lt_rank: "dt_lt a b = Inr c \<Longrightarrow> c = (dt_rank a < dt_rank b)"
  by (auto simp: dt_lt_def dt_rank_def split: if_splits)

lemma key_lt_rank: "key_lt k k' = Inr c \<Longrightarrow> c = (key_rank k < key_rank k')"
proof -
  obtain a1 a2 a3 b1 b2 b3 where k: "k = (a1, a2, a3)" "k' = (b1, b2, b3)"
    by (cases k, cases k') auto
  assume "key_lt k k' = Inr c"
  then show ?thesis
    unfolding k
    by (auto simp: dt_eq_rank dest: dt_lt_rank split: if_splits)
qed

lemma insert_desc_hd:
  assumes "insert_desc key_lt x (b # rest) = Inr ys"
  shows "ys \<noteq> [] \<and> (hd ys = b \<and> key_rank (fst x) < key_rank (fst b) \<or>
                    hd ys = x \<and> \<not> key_rank (fst x) < key_rank (fst b))"
proof (cases "key_lt (fst x) (fst b)")
  case (Inl e)
  then show ?thesis
    using assms by simp
next
  case (Inr c)
  then show ?thesis
    using assms key_lt_rank [OF Inr] by (auto split: sum.splits if_splits)
qed

lemma sort_desc_hd:
  assumes "sort_desc key_lt ks = Inr ys" and "ks \<noteq> []"
  shows "\<exists>pre x post. ks = pre @ x # post \<and> ys \<noteq> [] \<and> hd ys = x \<and>
           (\<forall>p \<in> set pre. key_rank (fst p) < key_rank (fst x)) \<and>
           (\<forall>q \<in> set post. key_rank (fst q) \<le> key_rank (fst x))"
  using assms
proof (induction ks arbitrary: ys)
  case Nil
  then show ?case by simp
next
  case (Cons x xs)
  show ?case
  proof (cases "xs = []")
    case True
    then have "ys = [x]"
      using Cons.prems by simp
    then show ?thesis
      using True by (intro exI [of _ "[]"] exI [of _ x]) simp
  next
    case False
    obtain ys' where ys': "sort_desc key_lt xs = Inr ys'" and ins: "insert_desc key_lt x ys' = Inr ys"
      using Cons.prems by (auto split: sum.splits)
    obtain pre b post where xs: "xs = pre @ b # post" and ne: "ys' \<noteq> []" and hd: "hd ys' = b"
      and lower: "\<forall>p \<in> set pre. key_rank (fst p) < key_rank (fst b)"
      and upper: "\<forall>q \<in> set post. key_rank (fst q) \<le> key_rank (fst b)"
      using Cons.IH [OF ys' False] by blast
    obtain rest where rest: "ys' = b # rest"
      using ne hd by (cases ys') auto
    have cases: "ys \<noteq> []" "hd ys = b \<and> key_rank (fst x) < key_rank (fst b) \<or>
        hd ys = x \<and> \<not> key_rank (fst x) < key_rank (fst b)"
      using insert_desc_hd [of x b rest ys] ins rest by simp_all
    from cases(2) show ?thesis
    proof
      assume a: "hd ys = b \<and> key_rank (fst x) < key_rank (fst b)"
      have "x # xs = (x # pre) @ b # post"
        by (simp add: xs)
      moreover have "\<forall>p \<in> set (x # pre). key_rank (fst p) < key_rank (fst b)"
        using a lower by simp
      ultimately show ?thesis
        using a cases(1) upper by blast
    next
      assume a: "hd ys = x \<and> \<not> key_rank (fst x) < key_rank (fst b)"
      have bx: "key_rank (fst b) \<le> key_rank (fst x)"
        using a by (auto simp: not_less)
      have "\<forall>q \<in> set xs. key_rank (fst q) \<le> key_rank (fst x)"
      proof
        fix q
        assume "q \<in> set xs"
        then have "key_rank (fst q) \<le> key_rank (fst b)"
          using lower upper by (auto simp: xs less_imp_le)
        then show "key_rank (fst q) \<le> key_rank (fst x)"
          using bx by (rule order_trans)
      qed
      moreover have "x # xs = [] @ x # xs"
        by simp
      ultimately show ?thesis
        using a cases(1) by (intro exI [of _ "[]"] exI [of _ x] exI [of _ xs]) simp
    qed
  qed
qed

lemma keyed_keys:
  "keyed key xs = Inr ks \<Longrightarrow> map snd ks = xs \<and> (\<forall>p \<in> set ks. key (snd p) = Inr (fst p))"
  by (induction xs arbitrary: ks) (auto split: sum.splits)

lemma selector_returns_first_greatest:
  assumes "select_latest_file lib files pfx excl = Inr found"
  shows "(found = None \<longleftrightarrow> filter (is_candidate pfx excl) files = []) \<and>
         (\<forall>f. found = Some f \<longrightarrow>
            (\<exists>pre post kf.
               filter (is_candidate pfx excl) files = pre @ f # post \<and>
               sort_key lib pfx f = Inr kf \<and>
               (\<forall>g \<in> set pre. \<exists>kg. sort_key lib pfx g = Inr kg \<and> key_rank kg < key_rank kf) \<and>
               (\<forall>g \<in> set post. \<exists>kg. sort_key lib pfx g = Inr kg \<and> key_rank kg \<le> key_rank kf)))"
proof (cases "filter (is_candidate pfx excl) files = []")
  case True
  then show ?thesis
    using assms by (simp add: select_latest_file_def)
next
  case False
  define cs where "cs = filter (is_candidate pfx excl) files"
  obtain ks where ks: "keyed (sort_key lib pfx) cs = Inr ks"
    using assms False
    by (auto simp: select_latest_file_def sort_reverse_def cs_def split: sum.splits)
  obtain ys where ys: "sort_desc key_lt ks = Inr ys"
    using assms False ks
    by (auto simp: select_latest_file_def sort_reverse_def cs_def split: sum.splits)
  have km: "map snd ks = cs" and kk: "\<forall>p \<in> set ks. sort_key lib pfx (snd p) = Inr (fst p)"
    using keyed_keys [OF ks] by simp_all
  have "ks \<noteq> []"
    using km False cs_def by auto
  then obtain pre x post where split: "ks = pre @ x # post" and ne: "ys \<noteq> []" and hd: "hd ys = x"
    and lower: "\<forall>p \<in> set pre. key_rank (fst p) < key_rank (fst x)"
    and upper: "\<forall>q \<in> set post. key_rank (fst q) \<le> key_rank (fst x)"
    using sort_desc_hd [OF ys] by blast
  have found: "found = Some (snd x)"
    using assms False ks ys ne hd
    by (cases ys) (auto simp: select_latest_file_def sort_reverse_def cs_def split: sum.splits)
  have "cs = map snd pre @ snd x # map snd post"
    using km split by auto
  moreover have "sort_key lib pfx (snd x) = Inr (fst x)"
    using kk split by simp
  moreover have "\<forall>g \<in> set (map snd pre). \<exists>kg. sort_key lib pfx g = Inr kg \<and> key_rank kg < key_rank (fst x)"
    using kk lower split by auto
  moreover have "\<forall>g \<in> set (map snd post). \<exists>kg. sort_key lib pfx g = Inr kg \<and> key_rank kg \<le> key_rank (fst x)"
    using kk upper split by auto
  ultimately show ?thesis
    using found False unfolding cs_def by blast
qed

lemma selector_examples:
  "select_latest_file sample_lib
     [candidate ''comp_241201'' None, candidate ''comp_241202'' None, candidate ''comp_241130'' None]
     ''comp_'' [] = Inr (Some (candidate ''comp_241202'' None))"
  "select_latest_file sample_lib
     [candidate ''comp_a'' (Some ''2024-12-01T00:00:00Z''), candidate ''comp_b'' (Some ''2024-12-02T00:00:00Z'')]
     ''comp_'' [] = Inr (Some (candidate ''comp_b'' (Some ''2024-12-02T00:00:00Z'')))"
  "select_latest_file sample_lib
     [candidate ''comp_old_241202'' None, candidate ''comp_241201'' None]
     ''comp_'' [''comp_old''] = Inr (Some (candidate ''comp_241201'' None))"
  "select_latest_file sample_lib [candidate ''other_241202'' None] ''comp_'' [] = Inr None"
  "select_latest_file sample_lib [candidate ''comp_a'' None, candidate ''comp_b'' None] ''comp_'' []
     = Inr (Some (candidate ''comp_a'' None))"
  by (code_simp+)

text \<open>
  C4. With a modified time that carries the UTC designator on one candidate and none on
  another, and no timestamp in either name, the selector does not return the candidate
  with the modified time: the keys are \<open>(datetime.min, aware, datetime.min)\<close> and
  \<open>(datetime.min, datetime.min, datetime.min)\<close>, \<^verbatim>\<open>datetime.min\<close> is naive, and the sort
  raises \<^verbatim>\<open>TypeError\<close>, in either order of the two candidates.
\<close>

theorem selector_raises_on_present_and_absent_time:
  "select_latest_file sample_lib
     [candidate ''comp_a'' (Some ''2024-12-02T00:00:00Z''), candidate ''comp_b'' None] ''comp_'' []
     = Inl (TypeError ''can't compare offset-naive and offset-aware datetimes'') \<and>
   select_latest_file sample_lib
     [candidate ''comp_b'' None, candidate ''comp_a'' (Some ''2024-12-02T00:00:00Z'')] ''comp_'' []
     = Inl (TypeError ''can't compare offset-naive and offset-aware datetimes'')"
  by code_simp

end
